theory Spec2Isabelle
  imports Main "HOL-Library.Sublist"
begin

section \<open>JavaScript strings and values\<close>

text \<open>
  A JavaScript string is modelled as a \<open>string\<close> (a list of bytes: the UTF-8 encoding of
  the text). The two quote characters the escapers look for, the backtick (0x60) and the
  single quote (0x27), are ASCII, and an ASCII byte never occurs inside a multi-byte UTF-8
  sequence, so replacing them byte by byte is what \<open>String.prototype.replace\<close> does
  code unit by code unit.
\<close>

definition nl :: string where
  "nl = [CHR 0x0A]"

definition sq :: string where
  "sq = [CHR 0x27]"

definition bq :: string where
  "bq = [CHR 0x60]"

text \<open>\<open>s.replace(/c/g, rep)\<close> for a pattern of one literal character \<open>c\<close>:
  every occurrence of \<open>c\<close>, left to right, is replaced by \<open>rep\<close>.\<close>

fun replace_g :: "char \<Rightarrow> string \<Rightarrow> string \<Rightarrow> string" where
  "replace_g c rep [] = []"
| "replace_g c rep (x # xs) =
     (if x = c then rep @ replace_g c rep xs else x # replace_g c rep xs)"

text \<open>src/index.ts, lines 52-58.\<close>

definition escapeIdentifier :: "string \<Rightarrow> string" where
  "escapeIdentifier identifier = bq @ replace_g (CHR 0x60) (bq @ bq) identifier @ bq"

definition escapeLiteral :: "string \<Rightarrow> string" where
  "escapeLiteral str = sq @ replace_g (CHR 0x27) (sq @ sq) str @ sq"

text \<open>\<open>s.split(c)\<close> for a separator of one character: the segments between the
  occurrences of \<open>c\<close>; the empty string splits into one empty segment.\<close>

fun split_char :: "char \<Rightarrow> string \<Rightarrow> string list" where
  "split_char c [] = [[]]"
| "split_char c (x # xs) =
     (if x = c then [] # split_char c xs
      else (case split_char c xs of
              [] \<Rightarrow> [[x]]
            | seg # segs \<Rightarrow> (x # seg) # segs))"

text \<open>\<open>xs[i]\<close>: \<open>undefined\<close> (here \<open>None\<close>) out of range.\<close>

fun index :: "'a list \<Rightarrow> nat \<Rightarrow> 'a option" where
  "index [] i = None"
| "index (x # xs) 0 = Some x"
| "index (x # xs) (Suc i) = index xs i"

text \<open>
  The values a result row holds. What the code does with a value depends on whether it is
  \<open>undefined\<close>, \<open>null\<close> or a string; every other value (a number, a date, a buffer,
  a nested value) is an \<open>'x\<close>, of which the code only asks the runtime for its text.
  A row is the list of its columns with their values, in the order of the reply.
\<close>

datatype 'x jsval = JUndefined | JNull | JStr string | JOther 'x

type_synonym 'x row = "(string \<times> 'x jsval) list"

text \<open>\<open>row.name\<close>: \<open>undefined\<close> for a column the row does not have; of two columns
  of one name the later one has set the property.\<close>

definition field :: "'x row \<Rightarrow> string \<Rightarrow> 'x jsval" where
  "field r name = (case map_of (rev r) name of None \<Rightarrow> JUndefined | Some v \<Rightarrow> v)"

text \<open>
  The two built-in conversions of JavaScript the code applies to the values of a reply, as
  parameters of the model: \<open>String(v)\<close> for a value that is neither \<open>undefined\<close>,
  \<open>null\<close> nor a string, and \<open>JSON.stringify(rows, null, 2)\<close> for a list of rows.
  Both return a string for every value a reply of the pool holds.
\<close>

record 'x runtime =
  valueToString :: "'x \<Rightarrow> string"
  jsonStringify :: "'x row list \<Rightarrow> string"

text \<open>The string a template literal splices in for a value \<open>v\<close> at \<open>${v}\<close>.\<close>

fun toStr :: "'x runtime \<Rightarrow> 'x jsval \<Rightarrow> string" where
  "toStr js JUndefined = ''undefined''"
| "toStr js JNull = ''null''"
| "toStr js (JStr s) = s"
| "toStr js (JOther x) = valueToString js x"

text \<open>The decimal numeral of a natural number: the text a template literal splices in
  at \<open>${limit}\<close> for the number of rows asked for.\<close>

definition digit :: "nat \<Rightarrow> char" where
  "digit d = ''0123456789'' ! d"

fun digits :: "nat \<Rightarrow> string" where
  "digits n = (if n < 10 then [digit n] else digits (n div 10) @ [digit (n mod 10)])"

declare digits.simps [simp del]

section \<open>Errors, requests and effects\<close>

text \<open>A thrown JavaScript exception, with its \<open>message\<close>.\<close>

datatype jserror = Error string | TypeError string

fun message :: "jserror \<Rightarrow> string" where
  "message (Error m) = m"
| "message (TypeError m) = m"

text \<open>What reaches the pool: \<open>conn.query(sql)\<close> (the SQL text alone) or
  \<open>conn.execute(sql, values)\<close> (a statement with bound parameters).\<close>

datatype 'x request = Query string | Execute string "'x jsval list"

text \<open>The observable effects of a run, in the order they happen: a line written with
  \<open>console.log\<close> or \<open>console.error\<close>, a request sent to the pool, and the creation
  and the release of the tunnel client and of the pool.\<close>

datatype 'x event =
    Stdout string
  | Stderr string
  | Sent "'x request"
  | SshNew
  | SshEnd
  | PoolNew
  | PoolEnd

fun requests :: "'x event list \<Rightarrow> 'x request list" where
  "requests [] = []"
| "requests (Sent rq # evs) = rq # requests evs"
| "requests (_ # evs) = requests evs"

text \<open>The database behind the pool: its reply to a request may depend on the requests
  it has received before.\<close>

type_synonym 'x db = "'x request list \<Rightarrow> 'x request \<Rightarrow> jserror + 'x row list"

type_synonym ('x, 'a) io = "'x event list \<Rightarrow> (jserror + 'a) \<times> 'x event list"

definition io_throw :: "jserror \<Rightarrow> ('x, 'a) io" where
  "io_throw e tr = (Inl e, tr)"

definition io_bind :: "('x, 'a) io \<Rightarrow> ('a \<Rightarrow> ('x, 'b) io) \<Rightarrow> ('x, 'b) io" where
  "io_bind m f tr = (case m tr of (Inl e, tr') \<Rightarrow> (Inl e, tr') | (Inr x, tr') \<Rightarrow> f x tr')"

definition io_lift :: "jserror + 'a \<Rightarrow> ('x, 'a) io" where
  "io_lift r tr = (r, tr)"

text \<open>src/db.ts: \<open>queryRows\<close> is \<open>conn.query\<close> and \<open>executeRows\<close> is
  \<open>conn.execute\<close> of the pool the constructor created; the caller keeps the rows of
  the reply (\<open>const [rows] = await ...\<close>).\<close>

definition queryRows :: "'x db \<Rightarrow> string \<Rightarrow> ('x, 'x row list) io" where
  "queryRows mysql sql tr = (mysql (requests tr) (Query sql), tr @ [Sent (Query sql)])"

definition executeRows :: "'x db \<Rightarrow> string \<Rightarrow> 'x jsval list \<Rightarrow> ('x, 'x row list) io" where
  "executeRows mysql sql values tr =
     (mysql (requests tr) (Execute sql values), tr @ [Sent (Execute sql values)])"

text \<open>\<open>rows[0].name\<close>: a TypeError when there is no first row.\<close>

definition firstRowField :: "'x row list \<Rightarrow> string \<Rightarrow> jserror + 'x jsval" where
  "firstRowField rows name =
     (case rows of
        [] \<Rightarrow> Inl (TypeError (''Cannot read properties of undefined (reading '' @ sq @ name @ sq @ '')''))
      | r # _ \<Rightarrow> Inr (field r name))"

text \<open>The argument of a call of \<open>escapeIdentifier\<close> on a value of a row (typed
  \<open>any\<close>): the escaper starts with \<open>identifier.replace\<close>, which throws a
  TypeError unless the value is a string.\<close>

definition stringArg :: "'x jsval \<Rightarrow> jserror + string" where
  "stringArg v =
     (case v of
        JStr s \<Rightarrow> Inr s
      | JUndefined \<Rightarrow>
          Inl (TypeError (''Cannot read properties of undefined (reading '' @ sq @ ''replace'' @ sq @ '')''))
      | JNull \<Rightarrow>
          Inl (TypeError (''Cannot read properties of null (reading '' @ sq @ ''replace'' @ sq @ '')''))
      | JOther x \<Rightarrow> Inl (TypeError ''identifier.replace is not a function''))"

section \<open>The schema inspection queries\<close>

text \<open>src/index.ts, lines 125-169: the constraint lookup, a template literal. Its text up
  to the first spliced value (lines 125-166) is fixed.\<close>

definition querySelect :: string where
  "querySelect = concat
    [
     nl,
     ''    SELECT '', nl,
     ''      kcu.TABLE_NAME AS referencing_table,'', nl,
     ''      kcu.COLUMN_NAME AS referencing_column,'', nl,
     ''      kcu.REFERENCED_TABLE_NAME AS referenced_table,'', nl,
     ''      kcu.REFERENCED_COLUMN_NAME AS referenced_column,'', nl,
     ''      tc.CONSTRAINT_TYPE,'', nl,
     ''      c.DATA_TYPE AS referencing_data_type,'', nl,
     ''      c.CHARACTER_SET_NAME AS referencing_charset,'', nl,
     ''      c.COLLATION_NAME AS referencing_collation,'', nl,
     ''      c.COLUMN_TYPE AS referencing_column_type,'', nl,
     ''      c.IS_NULLABLE AS referencing_is_nullable,'', nl,
     ''      c.COLUMN_KEY AS referencing_key,'', nl,
     ''      c.COLUMN_DEFAULT AS referencing_default,'', nl,
     ''      c.EXTRA AS referencing_extra,'', nl,
     ''      rc.DATA_TYPE AS referenced_data_type,'', nl,
     ''      rc.CHARACTER_SET_NAME AS referenced_charset,'', nl,
     ''      rc.COLLATION_NAME AS referenced_collation,'', nl,
     ''      rc.COLUMN_TYPE AS referenced_column_type,'', nl,
     ''      rc.IS_NULLABLE AS referenced_is_nullable,'', nl,
     ''      rc.COLUMN_KEY AS referenced_key,'', nl,
     ''      rc.COLUMN_DEFAULT AS referenced_default,'', nl,
     ''      rc.EXTRA AS referenced_extra,'', nl,
     ''      rc.TABLE_SCHEMA AS schema_name'', nl,
     ''    FROM '', nl,
     ''      INFORMATION_SCHEMA.KEY_COLUMN_USAGE kcu'', nl,
     ''    JOIN '', nl,
     ''      INFORMATION_SCHEMA.TABLE_CONSTRAINTS tc'', nl,
     ''      ON kcu.CONSTRAINT_NAME = tc.CONSTRAINT_NAME'', nl,
     ''      AND kcu.TABLE_SCHEMA = tc.TABLE_SCHEMA'', nl,
     ''    JOIN'', nl,
     ''      INFORMATION_SCHEMA.COLUMNS c'', nl,
     ''      ON kcu.TABLE_SCHEMA = c.TABLE_SCHEMA'', nl,
     ''      AND kcu.TABLE_NAME = c.TABLE_NAME'', nl,
     ''      AND kcu.COLUMN_NAME = c.COLUMN_NAME'', nl,
     ''    JOIN'', nl,
     ''      INFORMATION_SCHEMA.COLUMNS rc'', nl,
     ''      ON kcu.REFERENCED_TABLE_SCHEMA = rc.TABLE_SCHEMA'', nl,
     ''      AND kcu.REFERENCED_TABLE_NAME = rc.TABLE_NAME'', nl,
     ''      AND kcu.REFERENCED_COLUMN_NAME = rc.COLUMN_NAME'', nl,
     ''    WHERE '', nl,
     ''      kcu.TABLE_SCHEMA = ''
    ]"

text \<open>The whole literal, with the schema name and the constraint name spliced in
  (lines 166-169).\<close>

definition query :: "string \<Rightarrow> string \<Rightarrow> string" where
  "query database constraintName = concat
    [
     querySelect, escapeLiteral database, nl,
     ''      AND tc.CONSTRAINT_TYPE = '', sq, ''FOREIGN KEY'', sq, nl,
     ''      AND kcu.CONSTRAINT_NAME = '', escapeLiteral constraintName, nl,
     ''  ''
    ]"

text \<open>Lines 201-211: the text of the foreign-key listing; the three \<open>?\<close> are
  placeholders for bound parameters.\<close>

definition getForeignKeysQuery :: string where
  "getForeignKeysQuery = concat
    [
     nl,
     ''    SELECT '', nl,
     ''      TABLE_NAME, COLUMN_NAME, CONSTRAINT_NAME, '', nl,
     ''      REFERENCED_TABLE_NAME, REFERENCED_COLUMN_NAME'', nl,
     ''    FROM '', nl,
     ''      INFORMATION_SCHEMA.KEY_COLUMN_USAGE'', nl,
     ''    WHERE '', nl,
     ''      TABLE_SCHEMA = ? '', nl,
     ''      AND REFERENCED_TABLE_NAME IS NOT NULL'', nl,
     ''      AND TABLE_NAME IN (?, ?)'', nl,
     ''  ''
    ]"

text \<open>Lines 218-228: the constraint listing.\<close>

definition getConstraintsQuery :: "string \<Rightarrow> string \<Rightarrow> string \<Rightarrow> string" where
  "getConstraintsQuery database referencing_table referenced_table = concat
    [
     nl,
     ''    SELECT '', nl,
     ''      TABLE_NAME,'', nl,
     ''      CONSTRAINT_NAME, '', nl,
     ''      CONSTRAINT_TYPE'', nl,
     ''    FROM '', nl,
     ''      INFORMATION_SCHEMA.TABLE_CONSTRAINTS'', nl,
     ''    WHERE '', nl,
     ''      TABLE_SCHEMA = '', escapeLiteral database, nl,
     ''      AND TABLE_NAME IN ('', escapeLiteral referencing_table, '', '', escapeLiteral referenced_table, '')'', nl,
     ''  ''
    ]"

text \<open>Lines 186-189, 194-197 and 231-239: the three local functions. Each splices its
  argument into the SQL text as it is.\<close>

definition getTableRowCount :: "'x db \<Rightarrow> string \<Rightarrow> ('x, 'x jsval) io" where
  "getTableRowCount mysql tableName =
     io_bind (queryRows mysql (''SELECT COUNT(*) as count FROM '' @ tableName))
       (\<lambda>result. io_lift (firstRowField result ''count''))"

definition getTableIndexes :: "'x db \<Rightarrow> string \<Rightarrow> ('x, 'x row list) io" where
  "getTableIndexes mysql tableName = queryRows mysql (''SHOW INDEX FROM '' @ tableName)"

definition getSampleData :: "'x db \<Rightarrow> string \<Rightarrow> nat \<Rightarrow> ('x, 'x row list) io" where
  "getSampleData mysql tableName limit tr =
     (case queryRows mysql (''SELECT * FROM '' @ tableName @ '' LIMIT '' @ digits limit) tr of
        (Inr rows, tr') \<Rightarrow> (Inr rows, tr')
      | (Inl error, tr') \<Rightarrow>
          (Inr [], tr' @ [Stderr (''Error fetching sample data from '' @ tableName
                                   @ '': '' @ message error)]))"

section \<open>The prompt\<close>

text \<open>The facts the template of lines 243-296 reads: the local variables of
  \<open>generatePrompt\<close> at its \<open>return\<close>.\<close>

record 'x DiagnosticContext =
  ctx_mauticError :: string
  ctx_constraintInfo :: "'x row list"
  ctx_referencingStructure :: "'x row list"
  ctx_referencedStructure :: "'x row list"
  ctx_allForeignKeys :: "'x row list"
  ctx_constraints :: "'x row list"
  ctx_referencingSampleData :: "'x row list"
  ctx_referencedSampleData :: "'x row list"
  ctx_referencingTableCount :: "'x jsval"
  ctx_referencedTableCount :: "'x jsval"
  ctx_referencingIndexes :: "'x row list"
  ctx_referencedIndexes :: "'x row list"
  ctx_dbVersion :: "'x jsval"

text \<open>The ten numbered instructions of the template (lines 283-292).\<close>

definition tenInstructions :: string where
  "tenInstructions = concat
    [
     ''1. Analyze any data type mismatches between the referencing and referenced columns.'', nl,
     ''2. Check for character set or collation incompatibilities.'', nl,
     ''3. Provide SQL statements to drop and recreate the foreign key constraint with appropriate ON DELETE/UPDATE actions.'', nl,
     ''4. Suggest necessary ALTER TABLE statements to modify column definitions if needed.'', nl,
     ''5. Remember that before altering a column, you may need to drop the foreign key constraint, modify the column, and then recreate the constraint.'', nl,
     ''6. Consider the impact on other constraints and foreign keys, especially recursive relationships, you'', sq, ''ll have to drop all the foreign keys that reference the table before altering the column.'', nl,
     ''7. Ensure that the proposed changes maintain data integrity based on the sample data provided.'', nl,
     ''8. If changes to multiple tables are required, suggest an order of operations that minimizes conflicts.'', nl,
     ''9. Pay special attention to the fact that this might be a composite key involving multiple columns.'', nl,
     ''10. Avoid dropping primary keys.'', nl
    ]"

text \<open>The template literal of lines 243-296, with \<open>row0\<close> for
  \<open>constraintInfo[0]\<close>.\<close>

definition promptText :: "'x runtime \<Rightarrow> 'x DiagnosticContext \<Rightarrow> 'x row \<Rightarrow> string" where
  "promptText js c row0 = concat
    [
     nl,
     ''You are a MySQL expert tasked with resolving foreign key constraint issues during a Mautic database upgrade.'', nl,
     nl,
     ''Mautic Error Message:'', nl,
     ctx_mauticError c, nl,
     nl,
     ''Foreign Key Constraint Information:'', nl,
     jsonStringify js (ctx_constraintInfo c), nl,
     nl,
     ''Referencing Table Structure ('', toStr js (field row0 ''referencing_table''), ''):'', nl,
     jsonStringify js (ctx_referencingStructure c), nl,
     nl,
     ''Referenced Table Structure ('', toStr js (field row0 ''referenced_table''), ''):'', nl,
     jsonStringify js (ctx_referencedStructure c), nl,
     nl,
     ''All Foreign Keys:'', nl,
     jsonStringify js (ctx_allForeignKeys c), nl,
     nl,
     ''Other Constraints:'', nl,
     jsonStringify js (ctx_constraints c), nl,
     nl,
     ''Sample Data for Referencing Table ('', toStr js (field row0 ''referencing_table''), ''):'', nl,
     jsonStringify js (ctx_referencingSampleData c), nl,
     nl,
     ''Sample Data for Referenced Table ('', toStr js (field row0 ''referenced_table''), ''):'', nl,
     jsonStringify js (ctx_referencedSampleData c), nl,
     nl,
     ''Table Row Counts:'', nl,
     ''- '', toStr js (field row0 ''referencing_table''), '': '', toStr js (ctx_referencingTableCount c), '' rows'', nl,
     ''- '', toStr js (field row0 ''referenced_table''), '': '', toStr js (ctx_referencedTableCount c), '' rows'', nl,
     nl,
     ''Table Indexes:'', nl,
     ''- '', toStr js (field row0 ''referencing_table''), '' Indexes: '', jsonStringify js (ctx_referencingIndexes c), nl,
     ''- '', toStr js (field row0 ''referenced_table''), '' Indexes: '', jsonStringify js (ctx_referencedIndexes c), nl,
     nl,
     ''Database Version: '', toStr js (ctx_dbVersion c), nl,
     ''Mautic Version: '', ''3.2.5'', nl,
     nl,
     ''Based on this information, please provide step-by-step instructions to resolve the foreign key constraint issue. Consider the following:'', nl,
     nl,
     tenInstructions,
     nl,
     ''Please format your response as a series of SQL statements with explanations for each step. If multiple approaches are possible, explain the pros and cons of each.'', nl,
     ''Assume that all statements will be executed by a database administrator with appropriate permissions in a staging environment before being applied to the production database to prevent data loss or corruption, and that the production database is backed up regularly.'', nl
    ]"

text \<open>Evaluating the template reads \<open>constraintInfo[0].referencing_table\<close>, which
  throws a TypeError on an empty array.\<close>

definition assemble :: "'x runtime \<Rightarrow> 'x DiagnosticContext \<Rightarrow> jserror + string" where
  "assemble js c =
     (case ctx_constraintInfo c of
        [] \<Rightarrow> Inl (TypeError (''Cannot read properties of undefined (reading ''
                             @ sq @ ''referencing_table'' @ sq @ '')''))
      | row0 # _ \<Rightarrow> Inr (promptText js c row0))"

section \<open>The context builder\<close>

text \<open>
  src/index.ts, lines 124-297. \<open>database\<close> is \<open>DB_CONFIG.database\<close>. Lines 180
  and 181 call \<open>escapeIdentifier\<close> on the two table names of the first row, which
  throws unless they are strings; from there on \<open>referencing_table\<close> and
  \<open>referenced_table\<close> stand for \<open>constraintInfo[0].referencing_table\<close> and
  \<open>constraintInfo[0].referenced_table\<close>, known to be strings. The sample rows are
  fetched with the default \<open>limit = 5\<close>.
\<close>

definition generatePrompt ::
  "'x runtime \<Rightarrow> string \<Rightarrow> 'x db \<Rightarrow> string \<Rightarrow> string \<Rightarrow> ('x, string) io" where
  "generatePrompt js database mysql mauticError constraintName =
     io_bind (queryRows mysql (query database constraintName)) (\<lambda>constraintInfo.
     case constraintInfo of
       [] \<Rightarrow> io_throw (Error (''No information found for constraint: '' @ constraintName))
     | row0 # _ \<Rightarrow>
     io_bind (queryRows mysql ''SELECT VERSION() as version'') (\<lambda>versionResult.
     io_bind (io_lift (firstRowField versionResult ''version'')) (\<lambda>dbVersion.
     io_bind (io_lift (stringArg (field row0 ''referencing_table''))) (\<lambda>referencing_table.
     io_bind (io_lift (stringArg (field row0 ''referenced_table''))) (\<lambda>referenced_table.
     let referencingTable = escapeIdentifier referencing_table;
         referencedTable = escapeIdentifier referenced_table in
     io_bind (queryRows mysql (''DESCRIBE '' @ referencingTable)) (\<lambda>referencingStructure.
     io_bind (queryRows mysql (''DESCRIBE '' @ referencedTable)) (\<lambda>referencedStructure.
     io_bind (getTableRowCount mysql referencing_table) (\<lambda>referencingTableCount.
     io_bind (getTableRowCount mysql referenced_table) (\<lambda>referencedTableCount.
     io_bind (getTableIndexes mysql referencing_table) (\<lambda>referencingIndexes.
     io_bind (getTableIndexes mysql referenced_table) (\<lambda>referencedIndexes.
     io_bind (executeRows mysql getForeignKeysQuery
                [JStr database, JStr referencing_table, JStr referenced_table]) (\<lambda>allForeignKeys.
     io_bind (queryRows mysql (getConstraintsQuery database referencing_table referenced_table))
       (\<lambda>constraints.
     io_bind (getSampleData mysql referencing_table 5) (\<lambda>referencingSampleData.
     io_bind (getSampleData mysql referenced_table 5) (\<lambda>referencedSampleData.
     io_lift (assemble js
       \<lparr> ctx_mauticError = mauticError,
         ctx_constraintInfo = constraintInfo,
         ctx_referencingStructure = referencingStructure,
         ctx_referencedStructure = referencedStructure,
         ctx_allForeignKeys = allForeignKeys,
         ctx_constraints = constraints,
         ctx_referencingSampleData = referencingSampleData,
         ctx_referencedSampleData = referencedSampleData,
         ctx_referencingTableCount = referencingTableCount,
         ctx_referencedTableCount = referencedTableCount,
         ctx_referencingIndexes = referencingIndexes,
         ctx_referencedIndexes = referencedIndexes,
         ctx_dbVersion = dbVersion \<rparr>))))))))))))))))"

section \<open>The process\<close>

text \<open>
  The collaborators of \<open>main\<close> (lines 71-122): \<open>extractConstraintName\<close> (the
  request to the language model, then \<open>trim\<close>) returns a name or throws; the tunnel
  client becomes ready or reports an error; \<open>forwardOut\<close> yields a stream or an
  error; the pool answers the requests.
\<close>

record 'x world =
  extractConstraintName :: "string \<Rightarrow> jserror + string"
  sshConnect :: "jserror option"
  forwardOut :: "jserror option"
  pool :: "'x db"
  dbName :: string
  jsRuntime :: "'x runtime"

text \<open>The trace so far and the two variables declared before the \<open>try\<close>:
  whether \<open>mysql\<close> and \<open>sshClient\<close> have been assigned.\<close>

record 'x state =
  trace :: "'x event list"
  mysqlSet :: bool
  sshClientSet :: bool

definition emit :: "'x event \<Rightarrow> 'x state \<Rightarrow> 'x state" where
  "emit ev s = s\<lparr>trace := trace s @ [ev]\<rparr>"

definition debugLog :: "bool \<Rightarrow> string \<Rightarrow> 'x state \<Rightarrow> 'x state" where
  "debugLog debugMode line s = (if debugMode then emit (Stdout line) s else s)"

text \<open>Lines 87-110, the body of the \<open>try\<close>. The two constructors (\<open>new Client()\<close>,
  and \<open>new MySQL(...)\<close>, which creates the pool) are taken to return normally.\<close>

definition tryBlock ::
  "'x world \<Rightarrow> bool \<Rightarrow> string \<Rightarrow> 'x state \<Rightarrow> (jserror + unit) \<times> 'x state" where
  "tryBlock w debugMode mauticError s0 =
     (case extractConstraintName w mauticError of
        Inl e \<Rightarrow> (Inl e, s0)
      | Inr constraintName \<Rightarrow>
          let s1 = debugLog debugMode (''Extracted constraint name: '' @ constraintName) s0;
              s2 = emit SshNew (s1\<lparr>sshClientSet := True\<rparr>)
          in (case sshConnect w of
                Some e \<Rightarrow> (Inl e, s2)
              | None \<Rightarrow>
                  let s3 = debugLog debugMode ''SSH connection established'' s2
                  in (case forwardOut w of
                        Some e \<Rightarrow> (Inl e, s3)
                      | None \<Rightarrow>
                          let s4 = emit PoolNew (s3\<lparr>mysqlSet := True\<rparr>);
                              s5 = debugLog debugMode
                                     (''Successfully connected to the database over SSH.'' @ nl) s4
                          in (case generatePrompt (jsRuntime w) (dbName w) (pool w) mauticError constraintName (trace s5) of
                                (Inl e, tr) \<Rightarrow> (Inl e, s5\<lparr>trace := tr\<rparr>)
                              | (Inr prompt, tr) \<Rightarrow> (Inr (), emit (Stdout prompt) (s5\<lparr>trace := tr\<rparr>))))))"

text \<open>Lines 112-117, the catch block: one line, on standard error with the debug flag and
  on standard output without it.\<close>

definition catchBlock :: "bool \<Rightarrow> jserror \<Rightarrow> 'x state \<Rightarrow> 'x state" where
  "catchBlock debugMode error s =
     (if debugMode then emit (Stderr (''Error: '' @ message error)) s
      else emit (Stdout (''Error occurred: '' @ message error)) s)"

text \<open>Lines 118-121: \<open>mysql.connection.end()\<close> if \<open>mysql\<close> is set, then
  \<open>sshClient.end()\<close> if \<open>sshClient\<close> is set. Both calls are taken to return
  normally.\<close>

definition finallyBlock :: "'x state \<Rightarrow> 'x state" where
  "finallyBlock s =
     (let s1 = (if mysqlSet s then emit PoolEnd s else s)
      in if sshClientSet s1 then emit SshEnd s1 else s1)"

text \<open>Lines 75-76: the first argument that starts with \<open>--error=\<close>, split at every
  \<open>=\<close>, second segment; \<open>None\<close> is \<open>null\<close>.\<close>

definition mauticErrorOf :: "string list \<Rightarrow> string option" where
  "mauticErrorOf args =
     (case List.find (\<lambda>arg. prefix ''--error='' arg) args of
        None \<Rightarrow> None
      | Some errorArg \<Rightarrow> index (split_char (CHR ''='') errorArg) 1)"

definition usage :: string where
  "usage = ''Error: Please provide the Mautic error message using --error='' @ [CHR 0x22]
             @ ''your error message'' @ [CHR 0x22]"

text \<open>How \<open>main\<close> ends: with \<open>process.exit(code)\<close>, or by returning, which sets
  no exit code.\<close>

datatype exit = ProcessExit nat | Returned

definition initial :: "'x state" where
  "initial = \<lparr>trace = [], mysqlSet = False, sshClientSet = False\<rparr>"

definition main :: "'x world \<Rightarrow> string list \<Rightarrow> exit \<times> 'x event list" where
  "main w args =
     (let debugMode = (''--debug'' \<in> set args) in
      case mauticErrorOf args of
        None \<Rightarrow> (ProcessExit 1, [Stderr usage])
      | Some mauticError \<Rightarrow>
          if mauticError = [] then (ProcessExit 1, [Stderr usage])
          else (case tryBlock w debugMode mauticError initial of
                  (Inl error, s) \<Rightarrow> (Returned, trace (finallyBlock (catchBlock debugMode error s)))
                | (Inr _, s) \<Rightarrow> (Returned, trace (finallyBlock s))))"

section \<open>A database for test runs\<close>

text \<open>
  A runtime for test runs: a value that is neither \<open>undefined\<close>, \<open>null\<close> nor a string
  is given by its text, and the serialisation of a list of rows only tells how many rows
  there are. It stands in for the JavaScript runtime in the example runs below and in none
  of the general statements.
\<close>

definition printed :: "string runtime" where
  "printed =
     \<lparr> valueToString = (\<lambda>text. text),
       jsonStringify = (\<lambda>rows. ''<'' @ digits (length rows) @ '' rows>'') \<rparr>"

text \<open>
  A stand-in for the server, in the manner of a test double: it replies by the position of
  the request in the run. The first request (the constraint lookup) gets the rows
  \<open>descriptor\<close>, the second the version, the fifth and the sixth (the two row counts)
  a count, every other one no rows; a request at a position listed in \<open>failing\<close> gets
  an error.
\<close>

definition server :: "string row list \<Rightarrow> nat list \<Rightarrow> string db" where
  "server descriptor failing history rq =
     (let k = length history in
      if k \<in> set failing then Inl (Error ''ER_NO_SUCH_TABLE'')
      else if k = 0 then Inr descriptor
      else if k = 1 then Inr [[(''version'', JStr ''8.0.36'')]]
      else if k = 4 \<or> k = 5 then Inr [[(''count'', JOther ''7'')]]
      else Inr [])"

definition descriptorRow :: "string \<Rightarrow> string \<Rightarrow> string \<Rightarrow> string \<Rightarrow> string row" where
  "descriptorRow referencing_table referencing_column referenced_table referenced_column =
     [(''referencing_table'', JStr referencing_table),
      (''referencing_column'', JStr referencing_column),
      (''referenced_table'', JStr referenced_table),
      (''referenced_column'', JStr referenced_column),
      (''CONSTRAINT_TYPE'', JStr ''FOREIGN KEY'')]"

text \<open>The descriptor of a composite key (two rows for the same pair of tables), and a
  context of the kind the builder hands to the template.\<close>

definition compositeKey :: "string row list" where
  "compositeKey =
     [descriptorRow ''order items'' ''order_id'' ''orders'' ''id'',
      descriptorRow ''order items'' ''tenant_id'' ''orders'' ''tenant_id'']"


text \<open>
  A server with a table \<open>orders\<close> of six rows, as far as the sample-row requests go. It
  answers a request by its text. In MySQL the two characters \<open>--\<close> followed by a blank
  start a comment that runs to the end of the line, so the second text below asks for all
  the rows of \<open>orders\<close>.
\<close>

definition sixRows :: "string row list" where
  "sixRows = map (\<lambda>n. [(''id'', JOther n)]) [''1'', ''2'', ''3'', ''4'', ''5'', ''6'']"

definition ordersOfSix :: "string db" where
  "ordersOfSix history rq =
     (if rq = Query ''SELECT * FROM orders LIMIT 5'' then Inr (take 5 sixRows)
      else if rq = Query ''SELECT * FROM orders -- x LIMIT 5'' then Inr sixRows
      else Inl (Error ''ER_PARSE_ERROR''))"

text \<open>A world in which the extraction returns \<open>FK_1\<close>, the tunnel is set up and the
  pool is the stand-in above; one in which the tunnel client cannot connect; and one in
  which the extraction fails with a message that quotes the error text it was given.\<close>

definition testWorld :: "string row list \<Rightarrow> nat list \<Rightarrow> string world" where
  "testWorld descriptor failing =
     \<lparr> extractConstraintName = (\<lambda>errorMessage. Inr ''FK_1''),
       sshConnect = None,
       forwardOut = None,
       pool = server descriptor failing,
       dbName = ''mautic'',
       jsRuntime = printed \<rparr>"

definition refusing :: "string world" where
  "refusing = (testWorld compositeKey []) \<lparr>sshConnect := Some (Error ''connect ECONNREFUSED'')\<rparr>"

definition echoing :: "string world" where
  "echoing = (testWorld compositeKey [])
     \<lparr>extractConstraintName := (\<lambda>errorMessage. Inl (Error (''no constraint name in: '' @ errorMessage)))\<rparr>"

section \<open>Notions the properties are stated with\<close>

text \<open>A string with every occurrence of the quote character \<open>q\<close> doubled.\<close>

definition doubled :: "char \<Rightarrow> string \<Rightarrow> string" where
  "doubled q s = concat (map (\<lambda>c. if c = q then [q, q] else [c]) s)"

text \<open>A left-to-right scan that finds no unescaped quote: every \<open>q\<close> it meets is
  followed at once by a second \<open>q\<close>, and the scan goes on behind the pair.\<close>

fun quotes_paired :: "char \<Rightarrow> string \<Rightarrow> bool" where
  "quotes_paired q [] = True"
| "quotes_paired q [x] = (x \<noteq> q)"
| "quotes_paired q (x # y # zs) =
     (if x = q then y = q \<and> quotes_paired q zs else quotes_paired q (y # zs))"

text \<open>A quoted token without its first and its last character.\<close>

definition interior :: "string \<Rightarrow> string" where
  "interior t = butlast (tl t)"

text \<open>What is left of a document behind the first occurrence of a text, and whether
  a list of texts occurs in a document one after the other, without overlap.\<close>

fun after_first :: "string \<Rightarrow> string \<Rightarrow> string option" where
  "after_first n [] = (if n = [] then Some [] else None)"
| "after_first n (c # cs) =
     (if prefix n (c # cs) then Some (drop (length n) (c # cs)) else after_first n cs)"

fun in_order :: "string list \<Rightarrow> string \<Rightarrow> bool" where
  "in_order [] doc = True"
| "in_order (n # ns) doc =
     (case after_first n doc of None \<Rightarrow> False | Some rest \<Rightarrow> in_order ns rest)"


text \<open>The requests of a complete inspection of the tables \<open>referencing_table\<close> and
  \<open>referenced_table\<close>, in the order of the source.\<close>

definition inspection :: "string \<Rightarrow> string \<Rightarrow> string \<Rightarrow> string \<Rightarrow> 'x request list" where
  "inspection database constraintName referencing_table referenced_table =
     [Query (query database constraintName),
      Query ''SELECT VERSION() as version'',
      Query (''DESCRIBE '' @ escapeIdentifier referencing_table),
      Query (''DESCRIBE '' @ escapeIdentifier referenced_table),
      Query (''SELECT COUNT(*) as count FROM '' @ referencing_table),
      Query (''SELECT COUNT(*) as count FROM '' @ referenced_table),
      Query (''SHOW INDEX FROM '' @ referencing_table),
      Query (''SHOW INDEX FROM '' @ referenced_table),
      Execute getForeignKeysQuery [JStr database, JStr referencing_table, JStr referenced_table],
      Query (getConstraintsQuery database referencing_table referenced_table),
      Query (''SELECT * FROM '' @ referencing_table @ '' LIMIT 5''),
      Query (''SELECT * FROM '' @ referenced_table @ '' LIMIT 5'')]"

text \<open>
  The reply of the pool to the request number \<open>k\<close> of a run that sends the requests
  \<open>rs\<close> behind the requests \<open>history\<close>; the rows of a reply, none for an error; and the
  value of a column in the first row of a reply.
\<close>

definition replyTo ::
  "'x db \<Rightarrow> 'x request list \<Rightarrow> 'x request list \<Rightarrow> nat \<Rightarrow> jserror + 'x row list" where
  "replyTo mysql history rs k = mysql (history @ take k rs) (rs ! k)"

definition rowsOf :: "jserror + 'x row list \<Rightarrow> 'x row list" where
  "rowsOf reply = (case reply of Inl error \<Rightarrow> [] | Inr rows \<Rightarrow> rows)"

definition firstField :: "jserror + 'x row list \<Rightarrow> string \<Rightarrow> 'x jsval" where
  "firstField reply name = (case rowsOf reply of [] \<Rightarrow> JUndefined | row # _ \<Rightarrow> field row name)"

text \<open>
  The facts as the replies of the pool give them, for a run that sends the twelve requests
  \<open>rs\<close> of an inspection: the rows of the lookup, of the two structures, of the two index
  listings, of the foreign-key and of the constraint listing; the \<open>version\<close> and the two
  \<open>count\<close> columns; and for the sample rows the rows of the reply, none if the reply is
  an error.
\<close>

definition gathered ::
  "'x db \<Rightarrow> 'x request list \<Rightarrow> 'x request list \<Rightarrow> string \<Rightarrow> 'x DiagnosticContext" where
  "gathered mysql history rs mauticError =
     \<lparr> ctx_mauticError = mauticError,
       ctx_constraintInfo = rowsOf (replyTo mysql history rs 0),
       ctx_referencingStructure = rowsOf (replyTo mysql history rs 2),
       ctx_referencedStructure = rowsOf (replyTo mysql history rs 3),
       ctx_allForeignKeys = rowsOf (replyTo mysql history rs 8),
       ctx_constraints = rowsOf (replyTo mysql history rs 9),
       ctx_referencingSampleData = rowsOf (replyTo mysql history rs 10),
       ctx_referencedSampleData = rowsOf (replyTo mysql history rs 11),
       ctx_referencingTableCount = firstField (replyTo mysql history rs 4) ''count'',
       ctx_referencedTableCount = firstField (replyTo mysql history rs 5) ''count'',
       ctx_referencingIndexes = rowsOf (replyTo mysql history rs 6),
       ctx_referencedIndexes = rowsOf (replyTo mysql history rs 7),
       ctx_dbVersion = firstField (replyTo mysql history rs 1) ''version'' \<rparr>"

text \<open>A request that carries bound parameters.\<close>

fun usesBinding :: "'x request \<Rightarrow> bool" where
  "usesBinding (Query sql) = False"
| "usesBinding (Execute sql params) = (params \<noteq> [])"

text \<open>The lines a run wrote to standard output and to standard error.\<close>

fun stdout :: "'x event list \<Rightarrow> string list" where
  "stdout [] = []"
| "stdout (Stdout line # evs) = line # stdout evs"
| "stdout (_ # evs) = stdout evs"

fun stderr :: "'x event list \<Rightarrow> string list" where
  "stderr [] = []"
| "stderr (Stderr line # evs) = line # stderr evs"
| "stderr (_ # evs) = stderr evs"

text \<open>Events of the pool and of the console, as opposed to the four events of the
  tunnel client and of the pool's life cycle.\<close>

fun isSent :: "'x event \<Rightarrow> bool" where
  "isSent (Sent rq) = True"
| "isSent _ = False"

fun isSentOrStderr :: "'x event \<Rightarrow> bool" where
  "isSentOrStderr (Sent rq) = True"
| "isSentOrStderr (Stderr line) = True"
| "isSentOrStderr _ = False"

text \<open>The line the catch block writes, and the events of the finally block.\<close>

definition catchLine :: "bool \<Rightarrow> jserror \<Rightarrow> 'x event" where
  "catchLine debugMode error =
     (if debugMode then Stderr (''Error: '' @ message error)
      else Stdout (''Error occurred: '' @ message error))"

definition releases :: "'x state \<Rightarrow> 'x event list" where
  "releases s = (if mysqlSet s then [PoolEnd] else []) @ (if sshClientSet s then [SshEnd] else [])"

text \<open>The line \<open>if (debugMode) console.log(line)\<close> writes, if any.\<close>

definition debugLines :: "bool \<Rightarrow> string \<Rightarrow> 'x event list" where
  "debugLines debugMode line = (if debugMode then [Stdout line] else [])"

section \<open>The escapers\<close>

lemma replace_g_doubled: "replace_g q [q, q] s = doubled q s"
  by (induction s) (simp_all add: doubled_def)

lemma quotes_paired_other: "x \<noteq> q \<Longrightarrow> quotes_paired q (x # rest) = quotes_paired q rest"
  by (cases rest) simp_all

lemma quotes_paired_doubled: "quotes_paired q (doubled q s)"
proof (induction s)
  case Nil
  show ?case by (simp add: doubled_def)
next
  case (Cons x xs)
  have step: "doubled q (x # xs) = (if x = q then q # q # doubled q xs else x # doubled q xs)"
    by (simp add: doubled_def)
  show ?case
  proof (cases "x = q")
    case True
    with Cons step show ?thesis by simp
  next
    case False
    with Cons step show ?thesis by (simp add: quotes_paired_other)
  qed
qed

lemma interior_wrap: "interior (a # xs @ [b]) = xs"
  by (simp add: interior_def)

text \<open>
  C2. For every string \<open>s\<close>, \<open>escapeIdentifier s\<close> is a backtick, \<open>s\<close> with every
  backtick doubled, and a backtick; \<open>escapeLiteral s\<close> is a single quote, \<open>s\<close> with
  every single quote doubled, and a single quote. Both are defined on every string, and a
  scan of the interior of either result meets no unescaped quote character.
\<close>

theorem escapers_contract:
  "escapeIdentifier s = [CHR 0x60] @ doubled (CHR 0x60) s @ [CHR 0x60]
   \<and> escapeLiteral s = [CHR 0x27] @ doubled (CHR 0x27) s @ [CHR 0x27]
   \<and> quotes_paired (CHR 0x60) (interior (escapeIdentifier s))
   \<and> quotes_paired (CHR 0x27) (interior (escapeLiteral s))"
proof -
  have i: "escapeIdentifier s = CHR 0x60 # doubled (CHR 0x60) s @ [CHR 0x60]"
    by (simp add: escapeIdentifier_def bq_def replace_g_doubled)
  have l: "escapeLiteral s = CHR 0x27 # doubled (CHR 0x27) s @ [CHR 0x27]"
    by (simp add: escapeLiteral_def sq_def replace_g_doubled)
  show ?thesis
    by (simp only: i l interior_wrap quotes_paired_doubled append_Cons append_Nil simp_thms)
qed

theorem escapers_contract_witness:
  "escapeIdentifier ''a`b'' = ''`a``b`''
   \<and> escapeLiteral [CHR ''O'', CHR 0x27, CHR ''B''] = [CHR 0x27, CHR ''O'', CHR 0x27, CHR 0x27, CHR ''B'', CHR 0x27]
   \<and> quotes_paired (CHR 0x60) (interior (escapeIdentifier ''a`b''))
   \<and> quotes_paired (CHR 0x27) (interior (escapeLiteral [CHR ''O'', CHR 0x27, CHR ''B'']))"
proof -
  have a: "escapeIdentifier ''a`b'' = ''`a``b`''"
    using escapers_contract [of "''a`b''"] by (simp add: doubled_def)
  have b: "escapeLiteral [CHR ''O'', CHR 0x27, CHR ''B'']
             = [CHR 0x27, CHR ''O'', CHR 0x27, CHR 0x27, CHR ''B'', CHR 0x27]"
    using escapers_contract [of "[CHR ''O'', CHR 0x27, CHR ''B'']"] by (simp add: doubled_def)
  show ?thesis
    using a b escapers_contract [of "''a`b''"] escapers_contract [of "[CHR ''O'', CHR 0x27, CHR ''B'']"]
    by blast
qed

section \<open>Runs of the context builder\<close>

lemma requests_append: "requests (xs @ ys) = requests xs @ requests ys"
  by (induction xs rule: requests.induct) simp_all

lemmas run_simps =
  generatePrompt_def io_bind_def queryRows_def executeRows_def io_lift_def io_throw_def
  getTableRowCount_def getTableIndexes_def getSampleData_def server_def firstRowField_def
  stringArg_def field_def assemble_def Let_def requests_append descriptorRow_def

lemma io_bind_InrE:
  assumes "io_bind m f tr = (Inr y, tr')"
  obtains x tr1 where "m tr = (Inr x, tr1)" and "f x tr1 = (Inr y, tr')"
  using assms by (auto simp: io_bind_def split: prod.splits sum.splits)

lemma queryRows_InrE:
  assumes "queryRows mysql sql tr = (Inr rows, tr')"
  obtains "tr' = tr @ [Sent (Query sql)]" and "mysql (requests tr) (Query sql) = Inr rows"
  using assms by (auto simp: queryRows_def)

lemma executeRows_InrE:
  assumes "executeRows mysql sql ps tr = (Inr rows, tr')"
  obtains "tr' = tr @ [Sent (Execute sql ps)]" and "mysql (requests tr) (Execute sql ps) = Inr rows"
  using assms by (auto simp: executeRows_def)

lemma io_lift_E:
  assumes "io_lift r tr = (r', tr')"
  obtains "tr' = tr" and "r = r'"
  using assms by (auto simp: io_lift_def)

lemma stringArg_InrE:
  assumes "stringArg v = Inr s"
  obtains "v = JStr s"
  using assms by (auto simp: stringArg_def split: jsval.splits)

lemma getTableRowCount_InrE:
  assumes "getTableRowCount mysql t tr = (Inr n, tr')"
  obtains "tr' = tr @ [Sent (Query (''SELECT COUNT(*) as count FROM '' @ t))]"
  using assms
  by (auto simp: getTableRowCount_def elim!: io_bind_InrE queryRows_InrE io_lift_E)

lemma getTableIndexes_InrE:
  assumes "getTableIndexes mysql t tr = (Inr n, tr')"
  obtains "tr' = tr @ [Sent (Query (''SHOW INDEX FROM '' @ t))]"
  using assms
  by (auto simp: getTableIndexes_def elim!: queryRows_InrE)

lemma digits_5: "digits 5 = ''5''"
  by (simp add: digits.simps digit_def)

lemma getSampleData_requests:
  assumes "getSampleData mysql t 5 tr = (r, tr')"
  shows "requests tr' = requests tr @ [Query (''SELECT * FROM '' @ t @ '' LIMIT 5'')]"
  using assms
  by (auto simp: getSampleData_def queryRows_def digits_5 requests_append split: sum.splits)

lemma generatePrompt_success_requests:
  assumes "generatePrompt js database mysql mauticError constraintName tr = (Inr doc, tr')"
  shows "\<exists>row0 rest referencing_table referenced_table.
           mysql (requests tr) (Query (query database constraintName)) = Inr (row0 # rest)
         \<and> field row0 ''referencing_table'' = JStr referencing_table
         \<and> field row0 ''referenced_table'' = JStr referenced_table
         \<and> requests tr' = requests tr @ inspection database constraintName referencing_table referenced_table"
  using assms unfolding generatePrompt_def Let_def
  apply (elim io_bind_InrE)
  apply (erule queryRows_InrE)
  apply (simp split: list.splits add: io_throw_def)
  apply (elim io_bind_InrE queryRows_InrE executeRows_InrE io_lift_E stringArg_InrE getTableRowCount_InrE getTableIndexes_InrE)
  apply (drule getSampleData_requests)+
  apply (simp add: requests_append inspection_def)
  done

text \<open>A run that returns the prompt returns the template over the facts as the replies
  give them.\<close>

lemma firstRowField_InrE:
  assumes "firstRowField rows name = Inr v"
  obtains "firstField (Inr rows) name = v"
  using assms by (auto simp: firstRowField_def firstField_def rowsOf_def split: list.splits)

lemma getTableRowCount_value:
  assumes "getTableRowCount mysql t tr = (Inr n, tr')"
  obtains "tr' = tr @ [Sent (Query (''SELECT COUNT(*) as count FROM '' @ t))]"
    and "firstField (mysql (requests tr) (Query (''SELECT COUNT(*) as count FROM '' @ t))) ''count'' = n"
  using assms
  by (auto simp: getTableRowCount_def elim!: io_bind_InrE queryRows_InrE io_lift_E firstRowField_InrE)

lemma getTableIndexes_value:
  assumes "getTableIndexes mysql t tr = (Inr rows, tr')"
  obtains "tr' = tr @ [Sent (Query (''SHOW INDEX FROM '' @ t))]"
    and "mysql (requests tr) (Query (''SHOW INDEX FROM '' @ t)) = Inr rows"
  using assms
  by (auto simp: getTableIndexes_def elim!: queryRows_InrE)

lemma getSampleData_value:
  assumes "getSampleData mysql t 5 tr = (Inr rows, tr')"
  shows "requests tr' = requests tr @ [Query (''SELECT * FROM '' @ t @ '' LIMIT 5'')]
       \<and> rowsOf (mysql (requests tr) (Query (''SELECT * FROM '' @ t @ '' LIMIT 5''))) = rows"
  using assms
  by (auto simp: getSampleData_def queryRows_def digits_5 requests_append rowsOf_def split: sum.splits)

lemma generatePrompt_success_prompt:
  assumes "generatePrompt js database mysql mauticError constraintName tr = (Inr doc, tr')"
  shows "\<exists>row0 rest referencing_table referenced_table.
           mysql (requests tr) (Query (query database constraintName)) = Inr (row0 # rest)
         \<and> field row0 ''referencing_table'' = JStr referencing_table
         \<and> field row0 ''referenced_table'' = JStr referenced_table
         \<and> requests tr' = requests tr @ inspection database constraintName referencing_table referenced_table
         \<and> doc = promptText js
                   (gathered mysql (requests tr)
                      (inspection database constraintName referencing_table referenced_table) mauticError)
                   row0"
  using assms unfolding generatePrompt_def Let_def
  apply (elim io_bind_InrE)
  apply (erule queryRows_InrE)
  apply (simp split: list.splits add: io_throw_def)
  apply (elim io_bind_InrE queryRows_InrE executeRows_InrE io_lift_E stringArg_InrE
              getTableRowCount_value getTableIndexes_value firstRowField_InrE)
  apply (drule getSampleData_value)+
  apply (simp add: requests_append inspection_def assemble_def gathered_def replyTo_def rowsOf_def)
  done

lemma io_bind_E:
  assumes "io_bind m f tr = (r, tr')"
  obtains (fails) e where "m tr = (Inl e, tr')" and "r = Inl e"
        | (goes_on) x tr1 where "m tr = (Inr x, tr1)" and "f x tr1 = (r, tr')"
  using assms by (auto simp: io_bind_def split: prod.splits sum.splits)

lemma queryRows_trace:
  assumes "queryRows mysql sql tr = (r, tr')"
  shows "tr' = tr @ [Sent (Query sql)]"
  using assms by (auto simp: queryRows_def)

lemma executeRows_trace:
  assumes "executeRows mysql sql ps tr = (r, tr')"
  shows "tr' = tr @ [Sent (Execute sql ps)]"
  using assms by (auto simp: executeRows_def)

lemma io_lift_trace:
  assumes "io_lift x tr = (r, tr')"
  shows "tr' = tr \<and> r = x"
  using assms by (auto simp: io_lift_def)

lemma getTableRowCount_trace:
  assumes "getTableRowCount mysql t tr = (r, tr')"
  shows "tr' = tr @ [Sent (Query (''SELECT COUNT(*) as count FROM '' @ t))]"
  using assms
  by (auto simp: getTableRowCount_def io_bind_def queryRows_def io_lift_def split: sum.splits)

lemma getTableIndexes_trace:
  assumes "getTableIndexes mysql t tr = (r, tr')"
  shows "tr' = tr @ [Sent (Query (''SHOW INDEX FROM '' @ t))]"
  using assms by (auto simp: getTableIndexes_def queryRows_def)

lemma getSampleData_Inl:
  assumes "mysql (requests tr) (Query (''SELECT * FROM '' @ t @ '' LIMIT '' @ digits n)) = Inl e"
  shows "getSampleData mysql t n tr
           = (Inr [], tr @ [Sent (Query (''SELECT * FROM '' @ t @ '' LIMIT '' @ digits n)),
                            Stderr (''Error fetching sample data from '' @ t @ '': '' @ message e)])"
  using assms by (simp add: getSampleData_def queryRows_def)

lemma getSampleData_Inr:
  assumes "mysql (requests tr) (Query (''SELECT * FROM '' @ t @ '' LIMIT '' @ digits n)) = Inr rows"
  shows "getSampleData mysql t n tr
           = (Inr rows, tr @ [Sent (Query (''SELECT * FROM '' @ t @ '' LIMIT '' @ digits n))])"
  using assms by (simp add: getSampleData_def queryRows_def)

lemma getSampleData_trace:
  assumes "getSampleData mysql t n tr = (r, tr')"
  shows "(\<exists>rows. r = Inr rows) \<and> (\<exists>evs. tr' = tr @ evs \<and> list_all isSentOrStderr evs)"
proof (cases "mysql (requests tr) (Query (''SELECT * FROM '' @ t @ '' LIMIT '' @ digits n))")
  case (Inl e)
  from assms show ?thesis unfolding getSampleData_Inl [where mysql=mysql and tr=tr, OF Inl] by auto
next
  case (Inr rows)
  from assms show ?thesis unfolding getSampleData_Inr [where mysql=mysql and tr=tr, OF Inr] by auto
qed

lemma generatePrompt_trace:
  assumes "generatePrompt js database mysql mauticError constraintName tr = (r, tr')"
  shows "\<exists>evs. tr' = tr @ evs \<and> list_all isSentOrStderr evs \<and> ((\<exists>e. r = Inl e) \<longrightarrow> list_all isSent evs)"
proof -
  from assms [unfolded generatePrompt_def] show ?thesis
  proof (cases rule: io_bind_E)
    case (fails e)
    then show ?thesis by (auto dest!: queryRows_trace)
  next
    case (goes_on constraintInfo tr1)
    from goes_on(1) have tr1: "tr1 = tr @ [Sent (Query (query database constraintName))]"
      by (rule queryRows_trace)
    show ?thesis
    proof (cases constraintInfo)
      case Nil
      with goes_on(2) tr1 show ?thesis by (auto simp: io_throw_def)
    next
      case (Cons row0 rest)
      from goes_on(2) show ?thesis
        unfolding Cons list.case Let_def tr1
        apply (elim io_bind_E)
        apply (auto dest!: queryRows_trace executeRows_trace io_lift_trace getTableRowCount_trace
                           getTableIndexes_trace getSampleData_trace
                    simp: assemble_def)
        done
    qed
  qed
qed

text \<open>
  C3. Whenever the reply to the constraint lookup has no rows, \<open>generatePrompt\<close> throws
  an error whose message is \<open>No information found for constraint: \<close> followed by the
  constraint name it was given, and the lookup is the only request the run has sent: no
  structure, count, index, foreign-key, constraint or sample-row request follows.
\<close>

theorem constraint_not_found:
  assumes "mysql (requests tr) (Query (query database constraintName)) = Inr []"
  shows "generatePrompt js database mysql mauticError constraintName tr
           = (Inl (Error (''No information found for constraint: '' @ constraintName)),
              tr @ [Sent (Query (query database constraintName))])"
  using assms by (simp add: generatePrompt_def io_bind_def queryRows_def io_throw_def)

theorem constraint_not_found_witness:
  "server [] [] (requests []) (Query (query ''mautic'' ''FK_818C32519EB6921'')) = Inr []
   \<and> generatePrompt printed ''mautic'' (server [] []) ''boom'' ''FK_818C32519EB6921'' []
       = (Inl (Error (''No information found for constraint: '' @ ''FK_818C32519EB6921'')),
          [] @ [Sent (Query (query ''mautic'' ''FK_818C32519EB6921''))])"
proof -
  have h: "server [] [] (requests []) (Query (query ''mautic'' ''FK_818C32519EB6921'')) = Inr []"
    by (simp add: server_def)
  from h constraint_not_found [where mysql = "server [] []" and tr = "[]", OF h]
  show ?thesis by blast
qed

lemma stringArg_JStr: "stringArg (JStr s) = Inr s"
  by (simp add: stringArg_def)

lemma generatePrompt_requests_prefix:
  assumes run: "generatePrompt js database mysql mauticError constraintName tr = (r, tr')"
    and lookup: "mysql (requests tr) (Query (query database constraintName)) = Inr (row0 # rest)"
    and rt: "field row0 ''referencing_table'' = JStr referencing_table"
    and rd: "field row0 ''referenced_table'' = JStr referenced_table"
  shows "prefix (requests tr')
           (requests tr @ inspection database constraintName referencing_table referenced_table)"
proof -
  from run [unfolded generatePrompt_def] show ?thesis
  proof (cases rule: io_bind_E)
    case (fails e)
    then show ?thesis by (auto dest!: queryRows_trace simp: requests_append inspection_def)
  next
    case (goes_on constraintInfo tr1)
    from goes_on(1) have tr1: "tr1 = tr @ [Sent (Query (query database constraintName))]"
      by (rule queryRows_trace)
    from goes_on(1) lookup have ci: "constraintInfo = row0 # rest"
      by (simp add: queryRows_def)
    from goes_on(2) show ?thesis
      unfolding ci list.case Let_def tr1 rt rd
      apply (elim io_bind_E)
      apply (auto dest!: queryRows_trace executeRows_trace io_lift_trace getTableRowCount_trace
                         getTableIndexes_trace getSampleData_requests
                  simp: requests_append inspection_def stringArg_JStr)
      done
  qed
qed

text \<open>
  C7, as the code has it. Take a run whose constraint lookup returned at least one row.
  If the run returns the prompt, the two table names of the first row are strings and the
  requests of the run are exactly the twelve of \<open>inspection\<close> for these two names: each
  table-scoped fact (structure, row count, indexes, sample rows) is requested once for
  the referencing name and once for the referenced name, whatever the number of descriptor
  rows. In every run, returning or throwing, the requests sent are a prefix of this
  sequence.
\<close>

theorem facts_fetched_once_per_role:
  assumes lookup: "mysql (requests tr) (Query (query database constraintName)) = Inr (row0 # rest)"
    and run: "generatePrompt js database mysql mauticError constraintName tr = (r, tr')"
  shows "((\<exists>doc. r = Inr doc) \<longrightarrow>
            (\<exists>referencing_table referenced_table.
                field row0 ''referencing_table'' = JStr referencing_table
              \<and> field row0 ''referenced_table'' = JStr referenced_table
              \<and> requests tr' = requests tr
                   @ inspection database constraintName referencing_table referenced_table))
       \<and> (\<forall>referencing_table referenced_table.
              field row0 ''referencing_table'' = JStr referencing_table
            \<and> field row0 ''referenced_table'' = JStr referenced_table
            \<longrightarrow> prefix (requests tr')
                  (requests tr @ inspection database constraintName referencing_table referenced_table))"
proof (intro conjI impI allI)
  assume "\<exists>doc. r = Inr doc"
  then obtain doc where "r = Inr doc" ..
  with run have "generatePrompt js database mysql mauticError constraintName tr = (Inr doc, tr')"
    by simp
  from generatePrompt_success_requests [OF this] lookup
  show "\<exists>referencing_table referenced_table.
          field row0 ''referencing_table'' = JStr referencing_table
        \<and> field row0 ''referenced_table'' = JStr referenced_table
        \<and> requests tr' = requests tr
             @ inspection database constraintName referencing_table referenced_table"
    by auto
next
  fix referencing_table referenced_table
  assume "field row0 ''referencing_table'' = JStr referencing_table
        \<and> field row0 ''referenced_table'' = JStr referenced_table"
  with generatePrompt_requests_prefix [OF run lookup]
  show "prefix (requests tr')
          (requests tr @ inspection database constraintName referencing_table referenced_table)"
    by blast
qed

theorem facts_fetched_once_per_role_witness:
  "server compositeKey [] (requests []) (Query (query ''mautic'' ''FK_1'')) = Inr compositeKey
   \<and> length compositeKey = 2
   \<and> field (hd compositeKey) ''referencing_table'' = JStr ''order items''
   \<and> field (hd compositeKey) ''referenced_table'' = JStr ''orders''
   \<and> (\<exists>doc tr'. generatePrompt printed ''mautic'' (server compositeKey []) ''boom'' ''FK_1'' [] = (Inr doc, tr')
         \<and> requests tr' = inspection ''mautic'' ''FK_1'' ''order items'' ''orders'')
   \<and> (\<exists>e tr'. generatePrompt printed ''mautic'' (server compositeKey [2]) ''boom'' ''FK_1'' [] = (Inl e, tr')
         \<and> prefix (requests tr') (inspection ''mautic'' ''FK_1'' ''order items'' ''orders''))"
proof -
  have lookup: "server compositeKey [] (requests []) (Query (query ''mautic'' ''FK_1''))
                  = Inr (hd compositeKey # tl compositeKey)"
    and lookup': "server compositeKey [2] (requests []) (Query (query ''mautic'' ''FK_1''))
                  = Inr (hd compositeKey # tl compositeKey)"
    by (simp_all add: server_def compositeKey_def)
  have names: "field (hd compositeKey) ''referencing_table'' = JStr ''order items''
             \<and> field (hd compositeKey) ''referenced_table'' = JStr ''orders''"
    by (simp add: compositeKey_def descriptorRow_def field_def)
  have "\<exists>doc tr'. generatePrompt printed ''mautic'' (server compositeKey []) ''boom'' ''FK_1'' [] = (Inr doc, tr')"
    by (simp add: run_simps compositeKey_def)
  then obtain doc tr'
    where run: "generatePrompt printed ''mautic'' (server compositeKey []) ''boom'' ''FK_1'' [] = (Inr doc, tr')"
    by blast
  have "\<exists>e tr'. generatePrompt printed ''mautic'' (server compositeKey [2]) ''boom'' ''FK_1'' [] = (Inl e, tr')"
    by (simp add: run_simps compositeKey_def)
  then obtain e tr''
    where run': "generatePrompt printed ''mautic'' (server compositeKey [2]) ''boom'' ''FK_1'' [] = (Inl e, tr'')"
    by blast
  from facts_fetched_once_per_role [OF lookup run] names
  have complete: "requests tr' = inspection ''mautic'' ''FK_1'' ''order items'' ''orders''"
    by auto
  from facts_fetched_once_per_role [OF lookup' run'] names
  have partial: "prefix (requests tr'') (inspection ''mautic'' ''FK_1'' ''order items'' ''orders'')"
    by auto
  have two: "length compositeKey = 2"
    by (simp add: compositeKey_def)
  have whole: "hd compositeKey # tl compositeKey = compositeKey"
    by (simp add: compositeKey_def)
  from lookup whole have lookup0: "server compositeKey [] (requests []) (Query (query ''mautic'' ''FK_1''))
                  = Inr compositeKey"
    by simp
  from run complete
  have first: "\<exists>doc tr'. generatePrompt printed ''mautic'' (server compositeKey []) ''boom'' ''FK_1'' [] = (Inr doc, tr')
         \<and> requests tr' = inspection ''mautic'' ''FK_1'' ''order items'' ''orders''"
    by blast
  from run' partial
  have second: "\<exists>e tr'. generatePrompt printed ''mautic'' (server compositeKey [2]) ''boom'' ''FK_1'' [] = (Inl e, tr')
         \<and> prefix (requests tr') (inspection ''mautic'' ''FK_1'' ''order items'' ''orders'')"
    by blast
  from lookup0 two names first second show ?thesis
    by blast
qed

text \<open>
  As the specification words it (every run with a non-empty descriptor, once per table),
  the property fails in two ways. A run with a non-empty descriptor throws at the
  first failing request and fetches nothing behind it: with the first \<open>DESCRIBE\<close>
  failing, no row count is ever requested. And when the constraint is self-referential the
  first row names one table twice, whose row count is then requested twice.
\<close>

theorem facts_fetched_once_counterexample:
  "server [descriptorRow ''order items'' ''order_id'' ''orders'' ''id''] [2] (requests [])
       (Query (query ''mautic'' ''FK_1''))
     = Inr [descriptorRow ''order items'' ''order_id'' ''orders'' ''id'']
   \<and> requests (snd (generatePrompt printed ''mautic''
         (server [descriptorRow ''order items'' ''order_id'' ''orders'' ''id''] [2]) ''boom'' ''FK_1'' []))
     = [Query (query ''mautic'' ''FK_1''), Query ''SELECT VERSION() as version'',
        Query ''DESCRIBE `order items`'']
   \<and> count_list (requests (snd (generatePrompt printed ''mautic''
         (server [descriptorRow ''categories'' ''parent_id'' ''categories'' ''id''] []) ''boom'' ''FK_2'' [])))
       (Query ''SELECT COUNT(*) as count FROM categories'') = 2"
  by (simp add: run_simps escapeIdentifier_def bq_def query_def querySelect_def nl_def getConstraintsQuery_def)

text \<open>
  C1, evaluated on a run for the table names \<open>order items\<close> and \<open>orders\<close>. The two
  \<open>DESCRIBE\<close> requests carry the names as \<open>escapeIdentifier\<close> returns them; the row
  counts, the index listings and the sample-row requests carry them as they are.
\<close>

theorem table_names_spliced_unescaped:
  "requests (snd (generatePrompt printed ''mautic''
      (server [descriptorRow ''order items'' ''order_id'' ''orders'' ''id''] []) ''boom'' ''FK_1'' []))
   = [Query (query ''mautic'' ''FK_1''),
      Query ''SELECT VERSION() as version'',
      Query ''DESCRIBE `order items`'',
      Query ''DESCRIBE `orders`'',
      Query ''SELECT COUNT(*) as count FROM order items'',
      Query ''SELECT COUNT(*) as count FROM orders'',
      Query ''SHOW INDEX FROM order items'',
      Query ''SHOW INDEX FROM orders'',
      Execute getForeignKeysQuery [JStr ''mautic'', JStr ''order items'', JStr ''orders''],
      Query (getConstraintsQuery ''mautic'' ''order items'' ''orders''),
      Query ''SELECT * FROM order items LIMIT 5'',
      Query ''SELECT * FROM orders LIMIT 5'']"
  by (simp add: run_simps escapeIdentifier_def bq_def digits.simps digit_def)

section \<open>The prompt template\<close>

lemma after_first_complete: "\<exists>y. after_first n (p @ n @ s) = Some (y @ s)"
proof (induction p)
  case Nil
  show ?case
  proof (cases "n @ s")
    case Nil
    then show ?thesis by simp
  next
    case (Cons c cs)
    have "after_first n (c # cs) = Some (drop (length n) (c # cs))"
      using Cons by (metis after_first.simps(2) prefixI)
    then show ?thesis using Cons by (metis append_Nil append_eq_conv_conj)
  qed
next
  case (Cons c p)
  show ?case
  proof (cases "prefix n (c # p @ n @ s)")
    case True
    have "drop (length n) ((c # p @ n) @ s)
            = drop (length n) (c # p @ n) @ drop (length n - length (c # p @ n)) s"
      by (rule drop_append)
    then have "drop (length n) (c # p @ n @ s) = drop (length n) (c # p @ n) @ s"
      by simp
    with True show ?thesis by simp
  next
    case False
    with Cons show ?thesis by simp
  qed
qed

lemma after_first_sound: "after_first n d = Some r \<Longrightarrow> \<exists>p. d = p @ n @ r"
proof (induction d)
  case Nil
  then show ?case by (simp split: if_splits)
next
  case (Cons c cs)
  show ?case
  proof (cases "prefix n (c # cs)")
    case True
    with Cons.prems have "r = drop (length n) (c # cs)" by simp
    with True have "c # cs = [] @ n @ r"
      by (metis append_Nil append_eq_conv_conj prefixE)
    then show ?thesis by blast
  next
    case False
    with Cons obtain p where "cs = p @ n @ r" by auto
    then have "c # cs = (c # p) @ n @ r" by simp
    then show ?thesis by blast
  qed
qed

lemma in_order_append_left: "in_order ns s \<Longrightarrow> in_order ns (y @ s)"
proof (induction ns arbitrary: s y)
  case Nil
  show ?case by simp
next
  case (Cons n ns)
  from Cons.prems obtain r where r: "after_first n s = Some r" and rest: "in_order ns r"
    by (auto split: option.splits)
  from after_first_sound [OF r] obtain p where "s = p @ n @ r" ..
  then have "y @ s = (y @ p) @ n @ r" by simp
  with after_first_complete [of n "y @ p" r]
  obtain y' where "after_first n (y @ s) = Some (y' @ r)" by auto
  with Cons.IH [OF rest] show ?case by simp
qed

lemma in_order_Cons: "in_order ns s \<Longrightarrow> in_order (n # ns) (n @ s)"
proof -
  assume rest: "in_order ns s"
  from after_first_complete [of n "[]" s]
  obtain y where "after_first n (n @ s) = Some (y @ s)" by auto
  with in_order_append_left [OF rest] show ?thesis by simp
qed







section \<open>Escaping and binding\<close>

lemma query_decomposed:
  "\<exists>p0 p1 p2. \<forall>database constraintName.
      query database constraintName
        = p0 @ escapeLiteral database @ p1 @ escapeLiteral constraintName @ p2"
proof (intro exI allI)
  fix database constraintName
  show "query database constraintName
          = querySelect @ escapeLiteral database
            @ (nl @ ''      AND tc.CONSTRAINT_TYPE = '' @ sq @ ''FOREIGN KEY'' @ sq @ nl
                  @ ''      AND kcu.CONSTRAINT_NAME = '')
            @ escapeLiteral constraintName @ (nl @ ''  '')"
    by (simp add: query_def)
qed

lemma getConstraintsQuery_decomposed:
  "\<exists>p0 p1 p2 p3. \<forall>database referencing_table referenced_table.
      getConstraintsQuery database referencing_table referenced_table
        = p0 @ escapeLiteral database @ p1 @ escapeLiteral referencing_table
             @ p2 @ escapeLiteral referenced_table @ p3"
proof (intro exI allI)
  fix database referencing_table referenced_table
  show "getConstraintsQuery database referencing_table referenced_table
          = (nl @ ''    SELECT '' @ nl @ ''      TABLE_NAME,'' @ nl @ ''      CONSTRAINT_NAME, '' @ nl
               @ ''      CONSTRAINT_TYPE'' @ nl @ ''    FROM '' @ nl
               @ ''      INFORMATION_SCHEMA.TABLE_CONSTRAINTS'' @ nl @ ''    WHERE '' @ nl
               @ ''      TABLE_SCHEMA = '')
            @ escapeLiteral database
            @ (nl @ ''      AND TABLE_NAME IN ('')
            @ escapeLiteral referencing_table @ '', '' @ escapeLiteral referenced_table
            @ ('')'' @ nl @ ''  '')"
    by (simp add: getConstraintsQuery_def)
qed

text \<open>
  C6, as the code has it. In every run that returns the prompt exactly one request carries
  bound parameters: the foreign-key listing, whose text is the constant
  \<open>getForeignKeysQuery\<close> and whose parameters are the schema name and the two table
  names. The constraint lookup and the constraint listing are sent as text, into which the
  schema name, the constraint name and the table names enter only as \<open>escapeLiteral\<close>
  tokens between fixed texts; the two \<open>DESCRIBE\<close> requests carry the table names as
  \<open>escapeIdentifier\<close> tokens. (Nothing is said here of the row-count, index and
  sample-row requests.)
\<close>

theorem one_operation_binds:
  assumes run: "generatePrompt js database mysql mauticError constraintName tr = (Inr doc, tr')"
  shows "(\<exists>referencing_table referenced_table rs.
            requests tr' = requests tr @ rs
          \<and> filter usesBinding rs
              = [Execute getForeignKeysQuery
                   [JStr database, JStr referencing_table, JStr referenced_table]]
          \<and> Query (query database constraintName) \<in> set rs
          \<and> Query (''DESCRIBE '' @ escapeIdentifier referencing_table) \<in> set rs
          \<and> Query (''DESCRIBE '' @ escapeIdentifier referenced_table) \<in> set rs
          \<and> Query (getConstraintsQuery database referencing_table referenced_table) \<in> set rs)
       \<and> (\<exists>p0 p1 p2. \<forall>database constraintName.
             query database constraintName
               = p0 @ escapeLiteral database @ p1 @ escapeLiteral constraintName @ p2)
       \<and> (\<exists>p0 p1 p2 p3. \<forall>database referencing_table referenced_table.
             getConstraintsQuery database referencing_table referenced_table
               = p0 @ escapeLiteral database @ p1 @ escapeLiteral referencing_table
                    @ p2 @ escapeLiteral referenced_table @ p3)"
proof -
  from generatePrompt_success_requests [OF run]
  obtain referencing_table referenced_table
    where rs: "requests tr' = requests tr
                 @ inspection database constraintName referencing_table referenced_table"
    by blast
  have "filter usesBinding (inspection database constraintName referencing_table referenced_table)
          = [Execute getForeignKeysQuery
               [JStr database, JStr referencing_table, JStr referenced_table]]"
    by (simp add: inspection_def)
  moreover have "Query (query database constraintName)
        \<in> set (inspection database constraintName referencing_table referenced_table)"
    and "Query (''DESCRIBE '' @ escapeIdentifier referencing_table)
        \<in> set (inspection database constraintName referencing_table referenced_table)"
    and "Query (''DESCRIBE '' @ escapeIdentifier referenced_table)
        \<in> set (inspection database constraintName referencing_table referenced_table)"
    and "Query (getConstraintsQuery database referencing_table referenced_table)
        \<in> set (inspection database constraintName referencing_table referenced_table)"
    by (simp_all add: inspection_def)
  ultimately show ?thesis
    using rs query_decomposed getConstraintsQuery_decomposed by blast
qed

theorem one_operation_binds_witness:
  "\<exists>doc tr'. generatePrompt printed ''mautic'' (server compositeKey []) ''boom'' ''FK_1'' [] = (Inr doc, tr')
      \<and> filter usesBinding (requests tr')
          = [Execute getForeignKeysQuery [JStr ''mautic'', JStr ''order items'', JStr ''orders'']]"
proof -
  have "\<exists>doc tr'. generatePrompt printed ''mautic'' (server compositeKey []) ''boom'' ''FK_1'' [] = (Inr doc, tr')"
    by (simp add: run_simps compositeKey_def)
  then obtain doc tr'
    where run: "generatePrompt printed ''mautic'' (server compositeKey []) ''boom'' ''FK_1'' [] = (Inr doc, tr')"
    by blast
  from one_operation_binds [OF run]
  obtain referencing_table referenced_table rs
    where rs: "requests tr' = requests [] @ rs"
      and bound: "filter usesBinding rs
              = [Execute getForeignKeysQuery
                   [JStr ''mautic'', JStr referencing_table, JStr referenced_table]]"
    by blast
  from generatePrompt_success_requests [OF run]
  have "filter usesBinding (requests tr')
          = [Execute getForeignKeysQuery [JStr ''mautic'', JStr ''order items'', JStr ''orders'']]"
    by (auto simp: server_def compositeKey_def descriptorRow_def field_def inspection_def)
  with run rs bound show ?thesis by auto
qed

text \<open>
  The specification counts two operations with bound parameters. In a complete run one request has
  them; the constraint listing, the tenth request, is plain text.
\<close>

theorem two_operations_bind_counterexample:
  "filter usesBinding (requests (snd (generatePrompt printed ''mautic''
      (server [descriptorRow ''order items'' ''order_id'' ''orders'' ''id''] []) ''boom'' ''FK_1'' [])))
     = [Execute getForeignKeysQuery [JStr ''mautic'', JStr ''order items'', JStr ''orders'']]
   \<and> requests (snd (generatePrompt printed ''mautic''
      (server [descriptorRow ''order items'' ''order_id'' ''orders'' ''id''] []) ''boom'' ''FK_1'' [])) ! 9
     = Query (getConstraintsQuery ''mautic'' ''order items'' ''orders'')"
  by (simp add: run_simps)

section \<open>Sample rows\<close>

lemma generatePrompt_failure_short:
  assumes "generatePrompt js database mysql mauticError constraintName tr = (Inl e, tr')"
  shows "length (requests tr') \<le> length (requests tr) + 10"
proof -
  from assms [unfolded generatePrompt_def] show ?thesis
  proof (cases rule: io_bind_E)
    case (fails e')
    then show ?thesis by (auto dest!: queryRows_trace simp: requests_append)
  next
    case (goes_on constraintInfo tr1)
    from goes_on(1) have tr1: "tr1 = tr @ [Sent (Query (query database constraintName))]"
      by (rule queryRows_trace)
    show ?thesis
    proof (cases constraintInfo)
      case Nil
      with goes_on(2) tr1 show ?thesis by (auto simp: io_throw_def requests_append)
    next
      case (Cons row0 rest)
      from goes_on(2) show ?thesis
        unfolding Cons list.case Let_def tr1
        apply (elim io_bind_E)
        apply (auto dest!: queryRows_trace executeRows_trace io_lift_trace getTableRowCount_trace
                           getTableIndexes_trace getSampleData_trace
                    simp: assemble_def requests_append)
        done
    qed
  qed
qed

text \<open>
  C5. For every table name: if the reply to the sample-row request is an error,
  \<open>getSampleData\<close> returns the empty list, having written one line with the table name
  and the message to standard error, and throws nothing; if the reply is rows, it returns
  these rows as they are. A run of \<open>generatePrompt\<close> that has sent an eleventh request,
  which is the first sample-row request, returns the prompt whatever the replies to the
  sample-row requests are: the template over the facts as the replies give them, with no
  sample rows for a table whose sample-row request failed. The number of rows is bounded
  by the \<open>LIMIT 5\<close> at the end of the request text and by nothing else: for the table
  name \<open>orders -- x\<close> the text is \<open>SELECT * FROM orders -- x LIMIT 5\<close>, and the six
  rows of the reply are returned.
\<close>

theorem sample_failure_recovered:
  "(mysql (requests tr) (Query (''SELECT * FROM '' @ tableName @ '' LIMIT 5'')) = Inl error
      \<longrightarrow> getSampleData mysql tableName 5 tr
          = (Inr [], tr @ [Sent (Query (''SELECT * FROM '' @ tableName @ '' LIMIT 5'')),
                           Stderr (''Error fetching sample data from '' @ tableName @ '': ''
                                   @ message error)]))
   \<and> (mysql (requests tr) (Query (''SELECT * FROM '' @ tableName @ '' LIMIT 5'')) = Inr rows
      \<longrightarrow> getSampleData mysql tableName 5 tr
            = (Inr rows, tr @ [Sent (Query (''SELECT * FROM '' @ tableName @ '' LIMIT 5''))]))
   \<and> (generatePrompt js database mysql mauticError constraintName tr = (r, tr')
        \<and> length (requests tr') > length (requests tr) + 10
      \<longrightarrow> (\<exists>row0 rest referencing_table referenced_table.
              mysql (requests tr) (Query (query database constraintName)) = Inr (row0 # rest)
            \<and> requests tr' = requests tr
                 @ inspection database constraintName referencing_table referenced_table
            \<and> r = Inr (promptText js
                        (gathered mysql (requests tr)
                           (inspection database constraintName referencing_table referenced_table)
                           mauticError)
                        row0)))
   \<and> (replyTo mysql history rs 10 = Inl error
      \<longrightarrow> ctx_referencingSampleData (gathered mysql history rs mauticError) = [])
   \<and> (replyTo mysql history rs 11 = Inl error
      \<longrightarrow> ctx_referencedSampleData (gathered mysql history rs mauticError) = [])
   \<and> getSampleData ordersOfSix ''orders'' 5 []
       = (Inr (take 5 sixRows), [Sent (Query ''SELECT * FROM orders LIMIT 5'')])
   \<and> getSampleData ordersOfSix ''orders -- x'' 5 []
       = (Inr sixRows, [Sent (Query ''SELECT * FROM orders -- x LIMIT 5'')])
   \<and> length sixRows = 6"
proof (intro conjI impI)
  assume "mysql (requests tr) (Query (''SELECT * FROM '' @ tableName @ '' LIMIT 5'')) = Inl error"
  then show "getSampleData mysql tableName 5 tr
          = (Inr [], tr @ [Sent (Query (''SELECT * FROM '' @ tableName @ '' LIMIT 5'')),
                           Stderr (''Error fetching sample data from '' @ tableName @ '': ''
                                   @ message error)])"
    by (simp add: getSampleData_def queryRows_def digits_5)
next
  assume "mysql (requests tr) (Query (''SELECT * FROM '' @ tableName @ '' LIMIT 5'')) = Inr rows"
  then show "getSampleData mysql tableName 5 tr
            = (Inr rows, tr @ [Sent (Query (''SELECT * FROM '' @ tableName @ '' LIMIT 5''))])"
    by (simp add: getSampleData_def queryRows_def digits_5)
next
  assume a: "generatePrompt js database mysql mauticError constraintName tr = (r, tr')
        \<and> length (requests tr') > length (requests tr) + 10"
  then have run: "generatePrompt js database mysql mauticError constraintName tr = (r, tr')"
    and long: "length (requests tr') > length (requests tr) + 10"
    by simp_all
  have "\<exists>doc. r = Inr doc"
  proof (cases r)
    case (Inl e)
    with run generatePrompt_failure_short [of js database mysql mauticError constraintName tr e tr'] long
    show ?thesis by simp
  next
    case (Inr doc)
    then show ?thesis by blast
  qed
  then obtain doc where doc: "r = Inr doc" ..
  with run have "generatePrompt js database mysql mauticError constraintName tr = (Inr doc, tr')"
    by simp
  from generatePrompt_success_prompt [OF this] doc
  show "\<exists>row0 rest referencing_table referenced_table.
              mysql (requests tr) (Query (query database constraintName)) = Inr (row0 # rest)
            \<and> requests tr' = requests tr
                 @ inspection database constraintName referencing_table referenced_table
            \<and> r = Inr (promptText js
                        (gathered mysql (requests tr)
                           (inspection database constraintName referencing_table referenced_table)
                           mauticError)
                        row0)"
    by blast
next
  assume "replyTo mysql history rs 10 = Inl error"
  then show "ctx_referencingSampleData (gathered mysql history rs mauticError) = []"
    by (simp add: gathered_def rowsOf_def)
next
  assume "replyTo mysql history rs 11 = Inl error"
  then show "ctx_referencedSampleData (gathered mysql history rs mauticError) = []"
    by (simp add: gathered_def rowsOf_def)
next
  show "getSampleData ordersOfSix ''orders'' 5 []
       = (Inr (take 5 sixRows), [Sent (Query ''SELECT * FROM orders LIMIT 5'')])"
    by (simp add: getSampleData_def queryRows_def digits_5 ordersOfSix_def)
next
  show "getSampleData ordersOfSix ''orders -- x'' 5 []
       = (Inr sixRows, [Sent (Query ''SELECT * FROM orders -- x LIMIT 5'')])"
    by (simp add: getSampleData_def queryRows_def digits_5 ordersOfSix_def)
next
  show "length sixRows = 6"
    by (simp add: sixRows_def)
qed

theorem sample_failure_recovered_witness:
  "server [] [0] (requests []) (Query (''SELECT * FROM '' @ ''orders'' @ '' LIMIT 5''))
     = Inl (Error ''ER_NO_SUCH_TABLE'')
   \<and> getSampleData (server [] [0]) ''orders'' 5 []
       = (Inr [], [] @ [Sent (Query (''SELECT * FROM '' @ ''orders'' @ '' LIMIT 5'')),
                        Stderr (''Error fetching sample data from '' @ ''orders'' @ '': ''
                                @ message (Error ''ER_NO_SUCH_TABLE''))])
   \<and> (\<exists>tr'. generatePrompt printed ''mautic'' (server compositeKey [10]) ''boom'' ''FK_1'' []
                = (Inr (promptText printed
                          (gathered (server compositeKey [10]) []
                             (inspection ''mautic'' ''FK_1'' ''order items'' ''orders'') ''boom'')
                          (hd compositeKey)), tr')
         \<and> length (requests tr') = 12
         \<and> stderr tr' = [''Error fetching sample data from order items: ER_NO_SUCH_TABLE''])
   \<and> replyTo (server compositeKey [10]) []
         (inspection ''mautic'' ''FK_1'' ''order items'' ''orders'') 10 = Inl (Error ''ER_NO_SUCH_TABLE'')
   \<and> ctx_referencingSampleData
         (gathered (server compositeKey [10]) []
            (inspection ''mautic'' ''FK_1'' ''order items'' ''orders'') ''boom'') = []"
proof -
  have failed: "server [] [0] (requests []) (Query (''SELECT * FROM '' @ ''orders'' @ '' LIMIT 5''))
     = Inl (Error ''ER_NO_SUCH_TABLE'')"
    by (simp add: server_def)
  have "\<exists>r tr'. generatePrompt printed ''mautic'' (server compositeKey [10]) ''boom'' ''FK_1'' [] = (r, tr')
         \<and> length (requests tr') = 12
         \<and> stderr tr' = [''Error fetching sample data from order items: ER_NO_SUCH_TABLE'']"
    by (simp add: run_simps compositeKey_def digits_5)
  then obtain r tr'
    where run: "generatePrompt printed ''mautic'' (server compositeKey [10]) ''boom'' ''FK_1'' [] = (r, tr')"
      and long: "length (requests tr') = 12"
      and reported: "stderr tr' = [''Error fetching sample data from order items: ER_NO_SUCH_TABLE'']"
    by blast
  from long have more: "length (requests tr') > length (requests []) + 10"
    by simp
  have lookup: "server compositeKey [10] (requests []) (Query (query ''mautic'' ''FK_1''))
                  = Inr compositeKey"
    by (simp add: server_def)
  have eleventh: "replyTo (server compositeKey [10]) []
         (inspection ''mautic'' ''FK_1'' ''order items'' ''orders'') 10 = Inl (Error ''ER_NO_SUCH_TABLE'')"
    by (simp add: replyTo_def server_def inspection_def)
  from sample_failure_recovered
         [where mysql = "server [] [0]" and tr = "[]" and tableName = "''orders''"
            and error = "Error ''ER_NO_SUCH_TABLE''"] failed
  have one: "getSampleData (server [] [0]) ''orders'' 5 []
       = (Inr [], [] @ [Sent (Query (''SELECT * FROM '' @ ''orders'' @ '' LIMIT 5'')),
                        Stderr (''Error fetching sample data from '' @ ''orders'' @ '': ''
                                @ message (Error ''ER_NO_SUCH_TABLE''))])"
    by blast
  from sample_failure_recovered
         [where mysql = "server compositeKey [10]" and js = printed and database = "''mautic''"
            and mauticError = "''boom''" and constraintName = "''FK_1''" and tr = "[]"
            and r = r and tr' = tr'] run more
  obtain row0 rest referencing_table referenced_table
    where first: "server compositeKey [10] (requests []) (Query (query ''mautic'' ''FK_1''))
                    = Inr (row0 # rest)"
      and sent: "requests tr' = requests []
                   @ inspection ''mautic'' ''FK_1'' referencing_table referenced_table"
      and doc: "r = Inr (promptText printed
                        (gathered (server compositeKey [10]) (requests [])
                           (inspection ''mautic'' ''FK_1'' referencing_table referenced_table)
                           ''boom'')
                        row0)"
    by blast
  from first lookup have row0: "row0 = hd compositeKey"
    by (simp add: compositeKey_def)
  have "\<exists>doc. generatePrompt printed ''mautic'' (server compositeKey [10]) ''boom'' ''FK_1'' [] = (Inr doc, tr')"
    using run doc by simp
  then obtain doc' where "generatePrompt printed ''mautic'' (server compositeKey [10]) ''boom'' ''FK_1'' [] = (Inr doc', tr')" ..
  from generatePrompt_success_requests [OF this] sent
  have "inspection ''mautic'' ''FK_1'' referencing_table referenced_table
          = (inspection ''mautic'' ''FK_1'' ''order items'' ''orders'' :: string request list)"
    by (auto simp: server_def compositeKey_def descriptorRow_def field_def)
  with doc row0 have "r = Inr (promptText printed
                        (gathered (server compositeKey [10]) []
                           (inspection ''mautic'' ''FK_1'' ''order items'' ''orders'') ''boom'')
                        (hd compositeKey))"
    by simp
  with run long reported
  have three: "\<exists>tr'. generatePrompt printed ''mautic'' (server compositeKey [10]) ''boom'' ''FK_1'' []
                = (Inr (promptText printed
                          (gathered (server compositeKey [10]) []
                             (inspection ''mautic'' ''FK_1'' ''order items'' ''orders'') ''boom'')
                          (hd compositeKey)), tr')
         \<and> length (requests tr') = 12
         \<and> stderr tr' = [''Error fetching sample data from order items: ER_NO_SUCH_TABLE'']"
    by blast
  from sample_failure_recovered
         [where mysql = "server compositeKey [10]" and history = "[]"
            and rs = "inspection ''mautic'' ''FK_1'' ''order items'' ''orders''"
            and error = "Error ''ER_NO_SUCH_TABLE''" and mauticError = "''boom''"] eleventh
  have four: "ctx_referencingSampleData
         (gathered (server compositeKey [10]) []
            (inspection ''mautic'' ''FK_1'' ''order items'' ''orders'') ''boom'') = []"
    by blast
  from failed one three eleventh four show ?thesis
    by blast
qed

section \<open>Runs of the process\<close>

lemma count_list_isSentOrStderr:
  assumes "list_all isSentOrStderr evs"
  shows "count_list evs SshNew = 0" and "count_list evs SshEnd = 0"
    and "count_list evs PoolNew = 0" and "count_list evs PoolEnd = 0"
    and "stdout evs = []"
    and "list_all (\<lambda>e. e \<noteq> PoolEnd \<and> e \<noteq> SshEnd) evs"
  using assms by (induction evs rule: stdout.induct) simp_all

lemma stderr_isSent: "list_all isSent evs \<Longrightarrow> stderr evs = []"
  by (induction evs rule: stderr.induct) simp_all

lemma stdout_append: "stdout (xs @ ys) = stdout xs @ stdout ys"
  by (induction xs rule: stdout.induct) simp_all

lemma stderr_append: "stderr (xs @ ys) = stderr xs @ stderr ys"
  by (induction xs rule: stderr.induct) simp_all

lemma dropWhile_all: "list_all P xs \<Longrightarrow> dropWhile P (xs @ ys) = dropWhile P ys"
  by (induction xs) simp_all

lemma emit_fields [simp]:
  "trace (emit ev s) = trace s @ [ev]"
  "mysqlSet (emit ev s) = mysqlSet s"
  "sshClientSet (emit ev s) = sshClientSet s"
  by (simp_all add: emit_def)

lemma debugLog_fields [simp]:
  "trace (debugLog debugMode line s) = trace s @ debugLines debugMode line"
  "mysqlSet (debugLog debugMode line s) = mysqlSet s"
  "sshClientSet (debugLog debugMode line s) = sshClientSet s"
  by (simp_all add: debugLog_def debugLines_def)

lemma initial_fields [simp]:
  "trace initial = []" "mysqlSet initial = False" "sshClientSet initial = False"
  by (simp_all add: initial_def)

text \<open>What the body of the try block leaves behind, by the step at which it ends.\<close>

lemma tryBlock_cases:
  assumes "tryBlock (w :: 'x world) debugMode mauticError initial = (r, s)"
  obtains
    (extraction) e where "extractConstraintName w mauticError = Inl e" "r = Inl e"
      "trace s = []" "\<not> mysqlSet s" "\<not> sshClientSet s"
  | (connect) constraintName e where "extractConstraintName w mauticError = Inr constraintName"
      "sshConnect w = Some e" "r = Inl e"
      "trace s = debugLines debugMode (''Extracted constraint name: '' @ constraintName) @ [SshNew]"
      "\<not> mysqlSet s" "sshClientSet s"
  | (forward) constraintName e where "extractConstraintName w mauticError = Inr constraintName"
      "sshConnect w = None" "forwardOut w = Some e" "r = Inl e"
      "trace s = debugLines debugMode (''Extracted constraint name: '' @ constraintName) @ [SshNew]
                   @ debugLines debugMode ''SSH connection established''"
      "\<not> mysqlSet s" "sshClientSet s"
  | (prompt) constraintName tr0 evs r' where "extractConstraintName w mauticError = Inr constraintName"
      "sshConnect w = None" "forwardOut w = None"
      "tr0 = debugLines debugMode (''Extracted constraint name: '' @ constraintName) @ [SshNew]
               @ debugLines debugMode ''SSH connection established'' @ [PoolNew]
               @ debugLines debugMode (''Successfully connected to the database over SSH.'' @ nl)"
      "generatePrompt (jsRuntime w) (dbName w) (pool w) mauticError constraintName tr0 = (r', tr0 @ evs)"
      "list_all isSentOrStderr evs" "(\<exists>e. r' = Inl e) \<longrightarrow> list_all isSent evs"
      "r = (case r' of Inl e \<Rightarrow> Inl e | Inr p \<Rightarrow> Inr ())"
      "trace s = tr0 @ evs @ (case r' of Inl e \<Rightarrow> [] | Inr p \<Rightarrow> [Stdout p])"
      "mysqlSet s" "sshClientSet s"
proof (cases "extractConstraintName w mauticError")
  case (Inl e)
  with assms have "r = Inl e" "s = initial" by (auto simp: tryBlock_def)
  with Inl show ?thesis by (intro extraction [of e]) simp_all
next
  case name: (Inr constraintName)
  show ?thesis
  proof (cases "sshConnect w")
    case (Some e)
    with assms name show ?thesis
      by (intro connect [of constraintName e]) (auto simp: tryBlock_def Let_def)
  next
    case connected: None
    show ?thesis
    proof (cases "forwardOut w")
      case (Some e)
      with assms name connected show ?thesis
        by (intro forward [of constraintName e]) (auto simp: tryBlock_def Let_def)
    next
      case forwarded: None
      define tr0 :: "'x event list" where "tr0 = debugLines debugMode (''Extracted constraint name: '' @ constraintName) @ [SshNew]
               @ debugLines debugMode ''SSH connection established'' @ [PoolNew]
               @ debugLines debugMode (''Successfully connected to the database over SSH.'' @ nl)"
      obtain r' tr' where gp: "generatePrompt (jsRuntime w) (dbName w) (pool w) mauticError constraintName tr0 = (r', tr')"
        by (cases "generatePrompt (jsRuntime w) (dbName w) (pool w) mauticError constraintName tr0") blast
      from generatePrompt_trace [OF gp]
      obtain evs where evs: "tr' = tr0 @ evs" "list_all isSentOrStderr evs"
        "(\<exists>e. r' = Inl e) \<longrightarrow> list_all isSent evs"
        by blast
      from assms name connected forwarded gp
      have "r = (case r' of Inl e \<Rightarrow> Inl e | Inr p \<Rightarrow> Inr ())
          \<and> trace s = tr' @ (case r' of Inl e \<Rightarrow> [] | Inr p \<Rightarrow> [Stdout p])
          \<and> mysqlSet s \<and> sshClientSet s"
        by (cases r') (auto simp: tryBlock_def Let_def tr0_def)
      with name connected forwarded gp evs tr0_def show ?thesis
        by (intro prompt [of constraintName tr0 r' evs]) simp_all
    qed
  qed
qed

lemma catchBlock_fields [simp]:
  "trace (catchBlock debugMode error s) = trace s @ [catchLine debugMode error]"
  "mysqlSet (catchBlock debugMode error s) = mysqlSet s"
  "sshClientSet (catchBlock debugMode error s) = sshClientSet s"
  by (simp_all add: catchBlock_def catchLine_def)

lemma finallyBlock_trace: "trace (finallyBlock s) = trace s @ releases s"
  by (simp add: finallyBlock_def releases_def Let_def)

lemma releases_catchBlock [simp]: "releases (catchBlock debugMode error s) = releases s"
  by (simp add: releases_def)

lemma main_usage:
  assumes "mauticErrorOf args = None \<or> mauticErrorOf args = Some []"
  shows "main w args = (ProcessExit 1, [Stderr usage])"
  using assms by (auto simp: main_def)

lemma main_run:
  assumes "mauticErrorOf args = Some mauticError" and "mauticError \<noteq> []"
    and "tryBlock w (''--debug'' \<in> set args) mauticError initial = (r, s)"
  shows "main w args
           = (Returned,
              trace s @ (case r of Inl error \<Rightarrow> [catchLine (''--debug'' \<in> set args) error] | Inr u \<Rightarrow> [])
                @ releases s)"
  using assms by (cases r) (simp_all add: main_def finallyBlock_trace)

lemma count_debugLines [simp]:
  "count_list (debugLines debugMode line) SshNew = 0"
  "count_list (debugLines debugMode line) SshEnd = 0"
  "count_list (debugLines debugMode line) PoolNew = 0"
  "count_list (debugLines debugMode line) PoolEnd = 0"
  "list_all (\<lambda>e. e \<noteq> PoolEnd \<and> e \<noteq> SshEnd) (debugLines debugMode line)"
  "stderr (debugLines debugMode line) = []"
  by (simp_all add: debugLines_def)

lemma count_catchLine [simp]:
  "catchLine debugMode error \<noteq> SshNew" "catchLine debugMode error \<noteq> SshEnd"
  "catchLine debugMode error \<noteq> PoolNew" "catchLine debugMode error \<noteq> PoolEnd"
  by (simp_all add: catchLine_def)

lemma tryBlock_resources:
  assumes "tryBlock w debugMode mauticError initial = (r, s)"
  shows "count_list (trace s) PoolNew = (if mysqlSet s then 1 else 0)"
    and "count_list (trace s) SshNew = (if sshClientSet s then 1 else 0)"
    and "count_list (trace s) PoolEnd = 0"
    and "count_list (trace s) SshEnd = 0"
    and "list_all (\<lambda>e. e \<noteq> PoolEnd \<and> e \<noteq> SshEnd) (trace s)"
  using assms
  by (cases rule: tryBlock_cases; simp add: count_list_isSentOrStderr split: sum.splits)+

text \<open>
  C8. In every run of \<open>main\<close>, whatever the arguments and whatever step fails (the
  extraction, the tunnel set-up, the constraint lookup, any later request) or none, the
  pool is ended as often as it was created and the tunnel client is ended as often as it
  was created, each at most once; and the release events are the last events of the run.
\<close>

theorem resources_released_once:
  "count_list (snd (main w args)) PoolEnd = count_list (snd (main w args)) PoolNew
   \<and> count_list (snd (main w args)) SshEnd = count_list (snd (main w args)) SshNew
   \<and> count_list (snd (main w args)) PoolNew \<le> 1
   \<and> count_list (snd (main w args)) SshNew \<le> 1
   \<and> list_all (\<lambda>e. e = PoolEnd \<or> e = SshEnd)
        (dropWhile (\<lambda>e. e \<noteq> PoolEnd \<and> e \<noteq> SshEnd) (snd (main w args)))"
proof (cases "mauticErrorOf args = None \<or> mauticErrorOf args = Some []")
  case True
  from main_usage [OF True, of w] show ?thesis by simp
next
  case False
  then obtain mauticError where m: "mauticErrorOf args = Some mauticError" "mauticError \<noteq> []"
    by auto
  obtain r s where t: "tryBlock w (''--debug'' \<in> set args) mauticError initial = (r, s)"
    by (cases "tryBlock w (''--debug'' \<in> set args) mauticError initial") blast
  note res = tryBlock_resources [OF t]
  have body: "list_all (\<lambda>e. e \<noteq> PoolEnd \<and> e \<noteq> SshEnd)
                (trace s @ (case r of Inl error \<Rightarrow> [catchLine (''--debug'' \<in> set args) error] | Inr u \<Rightarrow> []))"
    using res(5) by (simp split: sum.splits)
  have "dropWhile (\<lambda>e. e \<noteq> PoolEnd \<and> e \<noteq> SshEnd) (snd (main w args))
          = dropWhile (\<lambda>e. e \<noteq> PoolEnd \<and> e \<noteq> SshEnd) (releases s)"
    using dropWhile_all [OF body, of "releases s"] by (simp add: main_run [OF m t])
  then have last: "list_all (\<lambda>e. e = PoolEnd \<or> e = SshEnd)
        (dropWhile (\<lambda>e. e \<noteq> PoolEnd \<and> e \<noteq> SshEnd) (snd (main w args)))"
    by (simp add: releases_def)
  from res(1-4) have counts: "count_list (snd (main w args)) PoolEnd = count_list (snd (main w args)) PoolNew
   \<and> count_list (snd (main w args)) SshEnd = count_list (snd (main w args)) SshNew
   \<and> count_list (snd (main w args)) PoolNew \<le> 1
   \<and> count_list (snd (main w args)) SshNew \<le> 1"
    by (simp add: main_run [OF m t] releases_def split: sum.splits)
  with last show ?thesis by blast
qed

theorem resources_released_once_witness:
  "count_list (snd (main (testWorld compositeKey [2]) [''--error=boom''])) PoolNew = 1
   \<and> count_list (snd (main (testWorld compositeKey [2]) [''--error=boom''])) PoolEnd = 1
   \<and> count_list (snd (main (testWorld compositeKey [2]) [''--error=boom''])) SshNew = 1
   \<and> count_list (snd (main (testWorld compositeKey [2]) [''--error=boom''])) SshEnd = 1
   \<and> count_list (snd (main refusing [''--error=boom''])) PoolNew = 0
   \<and> count_list (snd (main refusing [''--error=boom''])) PoolEnd = 0
   \<and> count_list (snd (main refusing [''--error=boom''])) SshEnd = 1"
proof -
  have acquired: "count_list (snd (main (testWorld compositeKey [2]) [''--error=boom''])) PoolNew = 1
     \<and> count_list (snd (main (testWorld compositeKey [2]) [''--error=boom''])) SshNew = 1"
    by (simp add: main_def mauticErrorOf_def tryBlock_def testWorld_def debugLog_def emit_def
          initial_def catchBlock_def finallyBlock_def run_simps compositeKey_def)
  have refused: "count_list (snd (main refusing [''--error=boom''])) PoolNew = 0
     \<and> count_list (snd (main refusing [''--error=boom''])) SshNew = 1"
    by (simp add: main_def mauticErrorOf_def tryBlock_def testWorld_def refusing_def debugLog_def
          emit_def initial_def catchBlock_def finallyBlock_def)
  from acquired refused
       resources_released_once [of "testWorld compositeKey [2]" "[''--error=boom'']"]
       resources_released_once [of refusing "[''--error=boom'']"]
  show ?thesis by simp
qed

lemma stdout_debugLines [simp]:
  "stdout (debugLines debugMode line) = (if debugMode then [line] else [])"
  by (simp add: debugLines_def)

lemma output_releases [simp]: "stdout (releases s) = []" "stderr (releases s) = []"
  by (simp_all add: releases_def)

lemma output_catchLine [simp]:
  "stdout (catchLine debugMode error # evs)
     = (if debugMode then [] else [''Error occurred: '' @ message error]) @ stdout evs"
  "stderr (catchLine debugMode error # evs)
     = (if debugMode then [''Error: '' @ message error] else []) @ stderr evs"
  by (simp_all add: catchLine_def)

lemma tryBlock_failure_output:
  assumes "tryBlock w debugMode mauticError initial = (Inl e, s)"
  shows "stderr (trace s) = []" and "\<not> debugMode \<Longrightarrow> stdout (trace s) = []"
  using assms
  by (cases rule: tryBlock_cases;
      simp add: stdout_append stderr_append count_list_isSentOrStderr stderr_isSent split: sum.splits)+

lemma tryBlock_success_output:
  assumes "tryBlock w debugMode mauticError initial = (Inr u, s)"
  shows "\<exists>constraintName tr prompt tr'.
            extractConstraintName w mauticError = Inr constraintName
          \<and> generatePrompt (jsRuntime w) (dbName w) (pool w) mauticError constraintName tr = (Inr prompt, tr')
          \<and> stdout (trace s)
              = (if debugMode
                 then [''Extracted constraint name: '' @ constraintName,
                       ''SSH connection established'',
                       ''Successfully connected to the database over SSH.'' @ nl]
                 else []) @ [prompt]"
  using assms
proof (cases rule: tryBlock_cases)
  case (prompt constraintName tr0 evs r')
  from prompt(8) obtain p where p: "r' = Inr p" by (cases r') simp_all
  from prompt(9) prompt(4) prompt(6) p
  have "stdout (trace s)
              = (if debugMode
                 then [''Extracted constraint name: '' @ constraintName,
                       ''SSH connection established'',
                       ''Successfully connected to the database over SSH.'' @ nl]
                 else []) @ [p]"
    by (simp add: stdout_append count_list_isSentOrStderr)
  with prompt(1) prompt(5) p show ?thesis by blast
qed simp_all

lemma requests_debugLines [simp]: "requests (debugLines debugMode line) = []"
  by (simp add: debugLines_def)

lemma tryBlock_success_prompt:
  assumes "tryBlock w debugMode mauticError initial = (Inr u, s)"
  shows "\<exists>constraintName row0 rest referencing_table referenced_table.
            extractConstraintName w mauticError = Inr constraintName
          \<and> pool w [] (Query (query (dbName w) constraintName)) = Inr (row0 # rest)
          \<and> field row0 ''referencing_table'' = JStr referencing_table
          \<and> field row0 ''referenced_table'' = JStr referenced_table
          \<and> stdout (trace s)
              = (if debugMode
                 then [''Extracted constraint name: '' @ constraintName,
                       ''SSH connection established'',
                       ''Successfully connected to the database over SSH.'' @ nl]
                 else [])
                @ [promptText (jsRuntime w)
                     (gathered (pool w) []
                        (inspection (dbName w) constraintName referencing_table referenced_table)
                        mauticError)
                     row0]"
  using assms
proof (cases rule: tryBlock_cases)
  case (prompt constraintName tr0 evs r')
  from prompt(8) obtain p where p: "r' = Inr p" by (cases r') simp_all
  from prompt(4) have none: "requests tr0 = []"
    by (simp add: requests_append)
  from prompt(5) p
  have "generatePrompt (jsRuntime w) (dbName w) (pool w) mauticError constraintName tr0 = (Inr p, tr0 @ evs)"
    by simp
  from generatePrompt_success_prompt [OF this] none
  obtain row0 rest referencing_table referenced_table
    where facts: "pool w [] (Query (query (dbName w) constraintName)) = Inr (row0 # rest)"
        "field row0 ''referencing_table'' = JStr referencing_table"
        "field row0 ''referenced_table'' = JStr referenced_table"
      and doc: "p = promptText (jsRuntime w)
                     (gathered (pool w) []
                        (inspection (dbName w) constraintName referencing_table referenced_table)
                        mauticError)
                     row0"
    by auto
  from prompt(9) prompt(4) prompt(6) p
  have "stdout (trace s)
              = (if debugMode
                 then [''Extracted constraint name: '' @ constraintName,
                       ''SSH connection established'',
                       ''Successfully connected to the database over SSH.'' @ nl]
                 else []) @ [p]"
    by (simp add: stdout_append count_list_isSentOrStderr)
  with prompt(1) facts doc show ?thesis by blast
qed simp_all

text \<open>
  C9, as the code has it. Without a usable error flag \<open>main\<close> writes the usage line to
  standard error and calls \<open>process.exit(1)\<close>. Otherwise \<open>main\<close> returns, and no exit
  status is set, whether the try block threw or not. If it threw, the run wrote exactly
  one error line: without the debug flag \<open>Error occurred: \<close> and the message, on
  standard output, and nothing on standard error; with the debug flag \<open>Error: \<close> and the
  message, on standard error. If it did not throw, standard output holds the prompt that
  \<open>generatePrompt\<close> returned, alone without the debug flag and behind the three debug
  lines with it.
\<close>

theorem failure_and_success_output:
  "((mauticErrorOf args = None \<or> mauticErrorOf args = Some [])
      \<longrightarrow> main w args = (ProcessExit 1, [Stderr usage]))
   \<and> (mauticErrorOf args = Some mauticError \<and> mauticError \<noteq> []
        \<and> tryBlock w (''--debug'' \<in> set args) mauticError initial = (r, s)
      \<longrightarrow> fst (main w args) = Returned
        \<and> (\<forall>e. r = Inl e \<and> ''--debug'' \<notin> set args
              \<longrightarrow> stdout (snd (main w args)) = [''Error occurred: '' @ message e]
                \<and> stderr (snd (main w args)) = [])
        \<and> (\<forall>e. r = Inl e \<and> ''--debug'' \<in> set args
              \<longrightarrow> stderr (snd (main w args)) = [''Error: '' @ message e])
        \<and> ((\<exists>u. r = Inr u)
              \<longrightarrow> (\<exists>constraintName tr prompt tr'.
                     extractConstraintName w mauticError = Inr constraintName
                   \<and> generatePrompt (jsRuntime w) (dbName w) (pool w) mauticError constraintName tr = (Inr prompt, tr')
                   \<and> stdout (snd (main w args))
                       = (if ''--debug'' \<in> set args
                          then [''Extracted constraint name: '' @ constraintName,
                                ''SSH connection established'',
                                ''Successfully connected to the database over SSH.'' @ nl]
                          else []) @ [prompt])))"
proof (intro conjI impI allI)
  assume "mauticErrorOf args = None \<or> mauticErrorOf args = Some []"
  then show "main w args = (ProcessExit 1, [Stderr usage])" by (rule main_usage)
next
  assume a: "mauticErrorOf args = Some mauticError \<and> mauticError \<noteq> []
        \<and> tryBlock w (''--debug'' \<in> set args) mauticError initial = (r, s)"
  then have m: "mauticErrorOf args = Some mauticError" "mauticError \<noteq> []"
    and t: "tryBlock w (''--debug'' \<in> set args) mauticError initial = (r, s)"
    by simp_all
  note run = main_run [OF m t]
  from run show "fst (main w args) = Returned" by simp
  {
    fix e
    assume "r = Inl e \<and> ''--debug'' \<notin> set args"
    then have r: "r = Inl e" and d: "''--debug'' \<notin> set args" by simp_all
    from t r have t': "tryBlock w (''--debug'' \<in> set args) mauticError initial = (Inl e, s)" by simp
    from tryBlock_failure_output [OF t'] d r run
    show "stdout (snd (main w args)) = [''Error occurred: '' @ message e]"
      and "stderr (snd (main w args)) = []"
      by (simp_all add: stdout_append stderr_append)
  }
  {
    fix e
    assume "r = Inl e \<and> ''--debug'' \<in> set args"
    then have r: "r = Inl e" and d: "''--debug'' \<in> set args" by simp_all
    from t r have t': "tryBlock w (''--debug'' \<in> set args) mauticError initial = (Inl e, s)" by simp
    from tryBlock_failure_output(1) [OF t'] d r run
    show "stderr (snd (main w args)) = [''Error: '' @ message e]"
      by (simp add: stderr_append)
  }
  {
    assume "\<exists>u. r = Inr u"
    then obtain u where r: "r = Inr u" ..
    from t r have t': "tryBlock w (''--debug'' \<in> set args) mauticError initial = (Inr u, s)" by simp
    from tryBlock_success_output [OF t'] r run
    show "\<exists>constraintName tr prompt tr'.
                     extractConstraintName w mauticError = Inr constraintName
                   \<and> generatePrompt (jsRuntime w) (dbName w) (pool w) mauticError constraintName tr = (Inr prompt, tr')
                   \<and> stdout (snd (main w args))
                       = (if ''--debug'' \<in> set args
                          then [''Extracted constraint name: '' @ constraintName,
                                ''SSH connection established'',
                                ''Successfully connected to the database over SSH.'' @ nl]
                          else []) @ [prompt]"
      by (simp add: stdout_append)
  }
qed

theorem failure_and_success_output_witness:
  "mauticErrorOf [] = None
   \<and> main refusing [] = (ProcessExit 1, [Stderr usage])
   \<and> mauticErrorOf [''--error=boom''] = Some ''boom'' \<and> ''boom'' \<noteq> []
   \<and> (\<exists>s. tryBlock refusing (''--debug'' \<in> set [''--error=boom'']) ''boom'' initial
              = (Inl (Error ''connect ECONNREFUSED''), s))
   \<and> ''--debug'' \<notin> set [''--error=boom'']
   \<and> fst (main refusing [''--error=boom'']) = Returned
   \<and> stdout (snd (main refusing [''--error=boom'']))
       = [''Error occurred: '' @ message (Error ''connect ECONNREFUSED'')]
   \<and> stderr (snd (main refusing [''--error=boom''])) = []
   \<and> ''--debug'' \<in> set [''--debug'', ''--error=boom'']
   \<and> stderr (snd (main refusing [''--debug'', ''--error=boom'']))
       = [''Error: '' @ message (Error ''connect ECONNREFUSED'')]
   \<and> (\<exists>s u. tryBlock (testWorld compositeKey []) (''--debug'' \<in> set [''--error=boom'']) ''boom'' initial
              = (Inr u, s))
   \<and> (\<exists>prompt. stdout (snd (main (testWorld compositeKey []) [''--error=boom''])) = [prompt])"
proof -
  have none: "mauticErrorOf [] = None"
    by (simp add: mauticErrorOf_def)
  have boom: "mauticErrorOf [''--error=boom''] = Some ''boom''" "''boom'' \<noteq> []"
    by (simp_all add: mauticErrorOf_def)
  have boom': "mauticErrorOf [''--debug'', ''--error=boom''] = Some ''boom''"
    by (simp add: mauticErrorOf_def)
  have quiet: "''--debug'' \<notin> set [''--error=boom'']" and loud: "''--debug'' \<in> set [''--debug'', ''--error=boom'']"
    by simp_all
  have "\<exists>s. tryBlock refusing (''--debug'' \<in> set [''--error=boom'']) ''boom'' initial
              = (Inl (Error ''connect ECONNREFUSED''), s)"
    by (simp add: tryBlock_def refusing_def testWorld_def)
  then obtain s1 where t1: "tryBlock refusing (''--debug'' \<in> set [''--error=boom'']) ''boom'' initial
              = (Inl (Error ''connect ECONNREFUSED''), s1)" ..
  have "\<exists>s. tryBlock refusing (''--debug'' \<in> set [''--debug'', ''--error=boom'']) ''boom'' initial
              = (Inl (Error ''connect ECONNREFUSED''), s)"
    by (simp add: tryBlock_def refusing_def testWorld_def)
  then obtain s2 where t2: "tryBlock refusing (''--debug'' \<in> set [''--debug'', ''--error=boom'']) ''boom'' initial
              = (Inl (Error ''connect ECONNREFUSED''), s2)" ..
  have "\<exists>s u. tryBlock (testWorld compositeKey []) (''--debug'' \<in> set [''--error=boom'']) ''boom'' initial
              = (Inr u, s)"
    by (simp add: tryBlock_def testWorld_def run_simps compositeKey_def debugLines_def)
  then obtain s3 u where t3: "tryBlock (testWorld compositeKey []) (''--debug'' \<in> set [''--error=boom'']) ''boom'' initial
              = (Inr u, s3)" by blast
  from failure_and_success_output [of "[]" refusing] none
  have usage: "main refusing [] = (ProcessExit 1, [Stderr usage])"
    by blast
  from failure_and_success_output
         [of "[''--error=boom'']" refusing "''boom''" "Inl (Error ''connect ECONNREFUSED'')" s1]
       boom t1 quiet
  have one: "fst (main refusing [''--error=boom'']) = Returned
   \<and> stdout (snd (main refusing [''--error=boom'']))
       = [''Error occurred: '' @ message (Error ''connect ECONNREFUSED'')]
   \<and> stderr (snd (main refusing [''--error=boom''])) = []"
    by blast
  from failure_and_success_output
         [of "[''--debug'', ''--error=boom'']" refusing "''boom''" "Inl (Error ''connect ECONNREFUSED'')" s2]
       boom' boom(2) t2 loud
  have two: "stderr (snd (main refusing [''--debug'', ''--error=boom'']))
       = [''Error: '' @ message (Error ''connect ECONNREFUSED'')]"
    by blast
  from failure_and_success_output
         [of "[''--error=boom'']" "testWorld compositeKey []" "''boom''" "Inr u" s3]
       boom t3 quiet
  have three: "\<exists>prompt. stdout (snd (main (testWorld compositeKey []) [''--error=boom''])) = [prompt]"
    by auto
  from none usage boom t1 quiet one loud two t3 three show ?thesis
    by blast
qed

text \<open>
  A run whose tunnel client cannot connect, without the debug flag: \<open>main\<close> writes its
  error line, ends the tunnel client and returns; no exit status is set. With no error
  flag at all, the same \<open>main\<close> ends with \<open>process.exit(1)\<close>.
\<close>

theorem failing_run_returns:
  "main refusing [''--error=boom'']
     = (Returned, [SshNew, Stdout ''Error occurred: connect ECONNREFUSED'', SshEnd])
   \<and> main refusing [] = (ProcessExit 1, [Stderr usage])"
  by (simp add: main_def mauticErrorOf_def tryBlock_def testWorld_def refusing_def debugLog_def
        emit_def initial_def catchBlock_def finallyBlock_def)

section \<open>The error flag\<close>

lemma split_char_first:
  "split_char c s
     = takeWhile (\<lambda>x. x \<noteq> c) s
       # (case dropWhile (\<lambda>x. x \<noteq> c) s of [] \<Rightarrow> [] | x # rest \<Rightarrow> split_char c rest)"
  by (induction s) simp_all

lemma split_char_flag:
  "split_char (CHR ''='') (''--error='' @ v)
     = ''--error'' # split_char (CHR ''='') v"
  by (subst split_char_first) simp

lemma second_segment:
  "index (split_char (CHR ''='') (''--error='' @ v)) 1 = Some (takeWhile (\<lambda>c. c \<noteq> CHR ''='') v)"
proof -
  have "split_char (CHR ''='') v
          = takeWhile (\<lambda>c. c \<noteq> CHR ''='') v
            # (case dropWhile (\<lambda>c. c \<noteq> CHR ''='') v of [] \<Rightarrow> []
               | x # rest \<Rightarrow> split_char (CHR ''='') rest)"
    by (rule split_char_first)
  then show ?thesis
    by (simp only: split_char_flag One_nat_def index.simps)
qed

lemma main_cong:
  assumes "(''--debug'' \<in> set args) = (''--debug'' \<in> set args')"
    and "mauticErrorOf args = mauticErrorOf args'"
  shows "main w args = main w args'"
  using assms by (simp add: main_def)

lemma in_order_needle:
  "in_order [a @ b @ c @ d] (a @ b @ c @ d @ s)"
proof -
  have "in_order [a @ b @ c @ d] ((a @ b @ c @ d) @ s)"
    by (rule in_order_Cons) simp
  then show ?thesis by simp
qed

lemma promptText_error:
  "in_order [''Mautic Error Message:'' @ nl @ ctx_mauticError c @ nl] (promptText js c row0)"
  unfolding promptText_def
  apply (simp only: concat.simps)
  apply (rule in_order_append_left, rule in_order_append_left, rule in_order_append_left,
         rule in_order_append_left, rule in_order_needle)
  done

lemma gathered_mauticError [simp]: "ctx_mauticError (gathered mysql history rs mauticError) = mauticError"
  by (simp add: gathered_def)

text \<open>
  C10. When the value \<open>v\<close> of the first \<open>--error=\<close> argument contains an \<open>=\<close>,
  the error message \<open>main\<close> works with is \<open>v\<close> up to its first \<open>=\<close> (the text
  between the first and the second \<open>=\<close> of the argument); the rest of \<open>v\<close> is
  dropped, and the run is the run for the truncated value. If the truncated value is
  empty, \<open>main\<close> writes the usage line and exits with status 1. Otherwise it runs the
  try block on the truncated value: the extraction is called with it, and if the
  extraction throws, the message it throws is the one the error line carries; if the try
  block returns, the last line of standard output is the template over the facts of the
  run and the truncated value, which stands in it behind the heading of the error
  message.
\<close>

theorem error_value_truncated:
  assumes flag: "List.find (\<lambda>arg. prefix ''--error='' arg) args = Some (''--error='' @ v)"
    and eq: "CHR ''='' \<in> set v"
  shows "mauticErrorOf args = Some (takeWhile (\<lambda>c. c \<noteq> CHR ''='') v)
       \<and> (\<exists>dropped. v = takeWhile (\<lambda>c. c \<noteq> CHR ''='') v @ CHR ''='' # dropped)
       \<and> main w args
           = main w ((if ''--debug'' \<in> set args then [''--debug''] else [])
                      @ [''--error='' @ takeWhile (\<lambda>c. c \<noteq> CHR ''='') v])
       \<and> (takeWhile (\<lambda>c. c \<noteq> CHR ''='') v = []
            \<longrightarrow> main w args = (ProcessExit 1, [Stderr usage]))
       \<and> (takeWhile (\<lambda>c. c \<noteq> CHR ''='') v \<noteq> []
            \<longrightarrow> main w args
                = (case tryBlock w (''--debug'' \<in> set args) (takeWhile (\<lambda>c. c \<noteq> CHR ''='') v) initial of
                     (Inl error, s) \<Rightarrow>
                       (Returned, trace (finallyBlock (catchBlock (''--debug'' \<in> set args) error s)))
                   | (Inr u, s) \<Rightarrow> (Returned, trace (finallyBlock s))))
       \<and> (\<forall>e. takeWhile (\<lambda>c. c \<noteq> CHR ''='') v \<noteq> []
              \<and> extractConstraintName w (takeWhile (\<lambda>c. c \<noteq> CHR ''='') v) = Inl e
            \<longrightarrow> main w args = (Returned, [catchLine (''--debug'' \<in> set args) e]))
       \<and> (\<forall>u s. takeWhile (\<lambda>c. c \<noteq> CHR ''='') v \<noteq> []
              \<and> tryBlock w (''--debug'' \<in> set args) (takeWhile (\<lambda>c. c \<noteq> CHR ''='') v) initial = (Inr u, s)
            \<longrightarrow> (\<exists>constraintName row0 rest referencing_table referenced_table prompt.
                    extractConstraintName w (takeWhile (\<lambda>c. c \<noteq> CHR ''='') v) = Inr constraintName
                  \<and> pool w [] (Query (query (dbName w) constraintName)) = Inr (row0 # rest)
                  \<and> field row0 ''referencing_table'' = JStr referencing_table
                  \<and> field row0 ''referenced_table'' = JStr referenced_table
                  \<and> prompt = promptText (jsRuntime w)
                               (gathered (pool w) []
                                  (inspection (dbName w) constraintName referencing_table referenced_table)
                                  (takeWhile (\<lambda>c. c \<noteq> CHR ''='') v))
                               row0
                  \<and> stdout (snd (main w args))
                      = (if ''--debug'' \<in> set args
                         then [''Extracted constraint name: '' @ constraintName,
                               ''SSH connection established'',
                               ''Successfully connected to the database over SSH.'' @ nl]
                         else []) @ [prompt]
                  \<and> in_order [''Mautic Error Message:'' @ nl @ takeWhile (\<lambda>c. c \<noteq> CHR ''='') v @ nl]
                       prompt))"
proof -
  let ?m = "takeWhile (\<lambda>c. c \<noteq> CHR ''='') v"
  let ?d = "''--debug'' \<in> set args"
  let ?args' = "(if ''--debug'' \<in> set args then [''--debug''] else []) @ [''--error='' @ ?m]"
  have taken: "mauticErrorOf args = Some ?m"
    unfolding mauticErrorOf_def flag option.case by (rule second_segment)
  from eq have "dropWhile (\<lambda>c. c \<noteq> CHR ''='') v \<noteq> []"
    by (simp add: dropWhile_eq_Nil_conv)
  then obtain x dropped where d: "dropWhile (\<lambda>c. c \<noteq> CHR ''='') v = x # dropped"
    by (cases "dropWhile (\<lambda>c. c \<noteq> CHR ''='') v") auto
  with hd_dropWhile [of "\<lambda>c. c \<noteq> CHR ''=''" v] have "x = CHR ''=''"
    by auto
  with d takeWhile_dropWhile_id [of "\<lambda>c. c \<noteq> CHR ''=''" v]
  have "v = ?m @ CHR ''='' # dropped"
    by simp
  then have cut: "\<exists>dropped. v = ?m @ CHR ''='' # dropped" ..
  have flag': "List.find (\<lambda>arg. prefix ''--error='' arg) ?args' = Some (''--error='' @ ?m)"
    by simp
  have "mauticErrorOf ?args' = Some (takeWhile (\<lambda>c. c \<noteq> CHR ''='') ?m)"
    unfolding mauticErrorOf_def flag' option.case by (rule second_segment)
  then have "mauticErrorOf ?args' = Some ?m"
    by simp
  with taken have same: "main w args = main w ?args'"
    by (intro main_cong) simp_all
  have empty: "?m = [] \<longrightarrow> main w args = (ProcessExit 1, [Stderr usage])"
    using taken by (simp add: main_def)
  have body: "?m \<noteq> [] \<longrightarrow> main w args
                = (case tryBlock w ?d ?m initial of
                     (Inl error, s) \<Rightarrow> (Returned, trace (finallyBlock (catchBlock ?d error s)))
                   | (Inr u, s) \<Rightarrow> (Returned, trace (finallyBlock s)))"
    using taken by (simp add: main_def Let_def)
  have thrown: "\<forall>e. ?m \<noteq> [] \<and> extractConstraintName w ?m = Inl e
            \<longrightarrow> main w args = (Returned, [catchLine ?d e])"
  proof (intro allI impI)
    fix e
    assume "?m \<noteq> [] \<and> extractConstraintName w ?m = Inl e"
    then have ne: "?m \<noteq> []" and ex: "extractConstraintName w ?m = Inl e"
      by simp_all
    from ex have t: "tryBlock w ?d ?m initial = (Inl e, initial)"
      by (simp add: tryBlock_def)
    from main_run [OF taken ne t] show "main w args = (Returned, [catchLine ?d e])"
      by (simp add: releases_def)
  qed
  have returned: "\<forall>u s. ?m \<noteq> [] \<and> tryBlock w ?d ?m initial = (Inr u, s)
            \<longrightarrow> (\<exists>constraintName row0 rest referencing_table referenced_table prompt.
                    extractConstraintName w ?m = Inr constraintName
                  \<and> pool w [] (Query (query (dbName w) constraintName)) = Inr (row0 # rest)
                  \<and> field row0 ''referencing_table'' = JStr referencing_table
                  \<and> field row0 ''referenced_table'' = JStr referenced_table
                  \<and> prompt = promptText (jsRuntime w)
                               (gathered (pool w) []
                                  (inspection (dbName w) constraintName referencing_table referenced_table)
                                  ?m)
                               row0
                  \<and> stdout (snd (main w args))
                      = (if ?d
                         then [''Extracted constraint name: '' @ constraintName,
                               ''SSH connection established'',
                               ''Successfully connected to the database over SSH.'' @ nl]
                         else []) @ [prompt]
                  \<and> in_order [''Mautic Error Message:'' @ nl @ ?m @ nl] prompt)"
  proof (intro allI impI)
    fix u s
    assume "?m \<noteq> [] \<and> tryBlock w ?d ?m initial = (Inr u, s)"
    then have ne: "?m \<noteq> []" and t: "tryBlock w ?d ?m initial = (Inr u, s)"
      by simp_all
    from tryBlock_success_prompt [OF t]
    obtain constraintName row0 rest referencing_table referenced_table
      where facts: "extractConstraintName w ?m = Inr constraintName"
          "pool w [] (Query (query (dbName w) constraintName)) = Inr (row0 # rest)"
          "field row0 ''referencing_table'' = JStr referencing_table"
          "field row0 ''referenced_table'' = JStr referenced_table"
        and out: "stdout (trace s)
              = (if ?d
                 then [''Extracted constraint name: '' @ constraintName,
                       ''SSH connection established'',
                       ''Successfully connected to the database over SSH.'' @ nl]
                 else [])
                @ [promptText (jsRuntime w)
                     (gathered (pool w) []
                        (inspection (dbName w) constraintName referencing_table referenced_table) ?m)
                     row0]"
      by blast
    from main_run [OF taken ne t] out
    have printed: "stdout (snd (main w args))
              = (if ?d
                 then [''Extracted constraint name: '' @ constraintName,
                       ''SSH connection established'',
                       ''Successfully connected to the database over SSH.'' @ nl]
                 else [])
                @ [promptText (jsRuntime w)
                     (gathered (pool w) []
                        (inspection (dbName w) constraintName referencing_table referenced_table) ?m)
                     row0]"
      by (simp add: stdout_append)
    have "in_order [''Mautic Error Message:'' @ nl @ ?m @ nl]
            (promptText (jsRuntime w)
               (gathered (pool w) []
                  (inspection (dbName w) constraintName referencing_table referenced_table) ?m)
               row0)"
      using promptText_error
              [of "gathered (pool w) []
                     (inspection (dbName w) constraintName referencing_table referenced_table) ?m"
                  "jsRuntime w" row0]
      by simp
    with facts printed
    show "\<exists>constraintName row0 rest referencing_table referenced_table prompt.
                    extractConstraintName w ?m = Inr constraintName
                  \<and> pool w [] (Query (query (dbName w) constraintName)) = Inr (row0 # rest)
                  \<and> field row0 ''referencing_table'' = JStr referencing_table
                  \<and> field row0 ''referenced_table'' = JStr referenced_table
                  \<and> prompt = promptText (jsRuntime w)
                               (gathered (pool w) []
                                  (inspection (dbName w) constraintName referencing_table referenced_table)
                                  ?m)
                               row0
                  \<and> stdout (snd (main w args))
                      = (if ?d
                         then [''Extracted constraint name: '' @ constraintName,
                               ''SSH connection established'',
                               ''Successfully connected to the database over SSH.'' @ nl]
                         else []) @ [prompt]
                  \<and> in_order [''Mautic Error Message:'' @ nl @ ?m @ nl] prompt"
      by blast
  qed
  from taken cut same empty body thrown returned show ?thesis
    by (intro conjI)
qed


theorem error_value_truncated_witness:
  "List.find (\<lambda>arg. prefix ''--error='' arg) [''--error=a=b''] = Some (''--error='' @ ''a=b'')
   \<and> CHR ''='' \<in> set ''a=b''
   \<and> mauticErrorOf [''--error=a=b''] = Some ''a''
   \<and> main echoing [''--error=a=b'']
       = (Returned, [Stdout ''Error occurred: no constraint name in: a''])
   \<and> stdout (snd (main (testWorld compositeKey []) [''--error=a=b'']))
       = [promptText printed
            (gathered (server compositeKey []) []
               (inspection ''mautic'' ''FK_1'' ''order items'' ''orders'') ''a'')
            (hd compositeKey)]
   \<and> in_order [''Mautic Error Message:'' @ nl @ ''a'' @ nl]
        (promptText printed
            (gathered (server compositeKey []) []
               (inspection ''mautic'' ''FK_1'' ''order items'' ''orders'') ''a'')
            (hd compositeKey))"
proof -
  have flag: "List.find (\<lambda>arg. prefix ''--error='' arg) [''--error=a=b''] = Some (''--error='' @ ''a=b'')"
    by simp
  have eq: "CHR ''='' \<in> set ''a=b''"
    by simp
  have m: "takeWhile (\<lambda>c. c \<noteq> CHR ''='') ''a=b'' = ''a''"
    by simp
  have quiet: "(''--debug'' \<in> set [''--error=a=b'']) = False"
    by simp
  note echo = error_value_truncated [OF flag eq, of echoing, unfolded m quiet]
  note run = error_value_truncated [OF flag eq, of "testWorld compositeKey []", unfolded m quiet]
  from echo have taken: "mauticErrorOf [''--error=a=b''] = Some ''a''"
    by (rule conjunct1)
  have thrown: "extractConstraintName echoing ''a'' = Inl (Error ''no constraint name in: a'')"
    by (simp add: echoing_def testWorld_def)
  have ne: "''a'' \<noteq> []"
    by simp
  have "main echoing [''--error=a=b''] = (Returned, [catchLine False (Error ''no constraint name in: a'')])"
    by (rule echo [THEN conjunct2, THEN conjunct2, THEN conjunct2, THEN conjunct2, THEN conjunct2,
                   THEN conjunct1, rule_format, OF conjI [OF ne thrown]])
  then have one: "main echoing [''--error=a=b'']
       = (Returned, [Stdout ''Error occurred: no constraint name in: a''])"
    by (simp add: catchLine_def)
  have "\<exists>s. tryBlock (testWorld compositeKey []) False ''a'' initial = (Inr (), s)"
    by (simp add: tryBlock_def testWorld_def run_simps compositeKey_def debugLines_def)
  then obtain s where t: "tryBlock (testWorld compositeKey []) False ''a'' initial = (Inr (), s)" ..
  from run [THEN conjunct2, THEN conjunct2, THEN conjunct2, THEN conjunct2, THEN conjunct2,
            THEN conjunct2, rule_format, OF conjI [OF ne t]]
  obtain constraintName row0 rest referencing_table referenced_table prompt
    where name: "extractConstraintName (testWorld compositeKey []) ''a'' = Inr constraintName"
      and lookup: "pool (testWorld compositeKey []) []
                     (Query (query (dbName (testWorld compositeKey [])) constraintName)) = Inr (row0 # rest)"
      and rt: "field row0 ''referencing_table'' = JStr referencing_table"
      and rd: "field row0 ''referenced_table'' = JStr referenced_table"
      and prompt: "prompt = promptText (jsRuntime (testWorld compositeKey []))
                               (gathered (pool (testWorld compositeKey [])) []
                                  (inspection (dbName (testWorld compositeKey [])) constraintName
                                     referencing_table referenced_table)
                                  ''a'')
                               row0"
      and out: "stdout (snd (main (testWorld compositeKey []) [''--error=a=b'']))
                  = (if False
                     then [''Extracted constraint name: '' @ constraintName,
                           ''SSH connection established'',
                           ''Successfully connected to the database over SSH.'' @ nl]
                     else []) @ [prompt]"
      and embedded: "in_order [''Mautic Error Message:'' @ nl @ ''a'' @ nl] prompt"
    apply (elim exE conjE)
    apply (rule that)
    apply assumption+
    done
  from name have n: "constraintName = ''FK_1''"
    by (simp add: testWorld_def)
  from lookup have r: "row0 = hd compositeKey"
    by (simp add: testWorld_def server_def compositeKey_def)
  from rt rd r have tables: "referencing_table = ''order items''" "referenced_table = ''orders''"
    by (simp_all add: compositeKey_def descriptorRow_def field_def)
  from prompt n r tables
  have p: "prompt = promptText printed
            (gathered (server compositeKey []) []
               (inspection ''mautic'' ''FK_1'' ''order items'' ''orders'') ''a'')
            (hd compositeKey)"
    by (simp add: testWorld_def)
  from out embedded
  have two: "stdout (snd (main (testWorld compositeKey []) [''--error=a=b'']))
       = [promptText printed
            (gathered (server compositeKey []) []
               (inspection ''mautic'' ''FK_1'' ''order items'' ''orders'') ''a'')
            (hd compositeKey)]"
    and three: "in_order [''Mautic Error Message:'' @ nl @ ''a'' @ nl]
        (promptText printed
            (gathered (server compositeKey []) []
               (inspection ''mautic'' ''FK_1'' ''order items'' ''orders'') ''a'')
            (hd compositeKey))"
    unfolding p by simp_all
  from flag eq taken one two three show ?thesis
    by (intro conjI)
qed

end
